theory Spec2Isabelle
  imports Main
begin

section \<open>Go values used by the adapter\<close>

text \<open>
  A Go \<open>string\<close> and a Go \<open>[]byte\<close> are both sequences of bytes; a HOL \<open>char\<close> is one
  byte, so both are \<open>char list\<close> and the conversions \<open>[]byte(s)\<close> and \<open>string(b)\<close> are the
  identity.
\<close>

type_synonym bytes = string

text \<open>
  Error values. \<open>CorruptInputError\<close> is the error of \<open>encoding/base64\<close> (the byte offset it
  carries is left out; nothing in the adapter reads it), \<open>ErrorString\<close> is \<open>errors.New\<close>,
  \<open>InvalidMethod\<close> is the error of \<open>http.NewRequest\<close> for a method that is not a token,
  \<open>URLError\<close> is what \<open>url.Parse\<close> returns, and \<open>Errorf fmt e\<close> is
  \<open>fmt.Errorf(fmt, e)\<close> of \<open>NewLoggedError\<close>, kept as the format and its argument.
\<close>

datatype error =
    CorruptInputError
  | ErrorString string
  | InvalidMethod string
  | URLError string
  | Errorf string error

subsection \<open>Package strings\<close>

definition HasPrefix :: "string \<Rightarrow> string \<Rightarrow> bool" where
  "HasPrefix s p = (take (length p) s = p)"

definition HasSuffix :: "string \<Rightarrow> string \<Rightarrow> bool" where
  "HasSuffix s p = (length p \<le> length s \<and> drop (length s - length p) s = p)"

text \<open>\<open>strings.Trim(s, " ")\<close>: all leading and trailing spaces removed.\<close>

definition TrimSpaces :: "string \<Rightarrow> string" where
  "TrimSpaces s = rev (dropWhile (\<lambda>c. c = CHR '' '') (rev (dropWhile (\<lambda>c. c = CHR '' '') s)))"

text \<open>\<open>strings.Replace(s, old, new, 1)\<close>: the leftmost occurrence of \<open>old\<close> replaced.\<close>

fun ReplaceFirst :: "string \<Rightarrow> string \<Rightarrow> string \<Rightarrow> string" where
  "ReplaceFirst [] old new = (if old = [] then new else [])"
| "ReplaceFirst (c # cs) old new =
     (if HasPrefix (c # cs) old then new @ drop (length old) (c # cs)
      else c # ReplaceFirst cs old new)"

text \<open>The numeric value of a byte.\<close>

definition byte :: "char \<Rightarrow> nat" where
  "byte c = of_char c"

definition isASCII :: "string \<Rightarrow> bool" where
  "isASCII s = (\<forall>c \<in> set s. byte c < 128)"

definition isLower :: "char \<Rightarrow> bool" where
  "isLower c = (97 \<le> byte c \<and> byte c \<le> 122)"

definition isUpper :: "char \<Rightarrow> bool" where
  "isUpper c = (65 \<le> byte c \<and> byte c \<le> 90)"

definition isDigit :: "char \<Rightarrow> bool" where
  "isDigit c = (48 \<le> byte c \<and> byte c \<le> 57)"

definition upperByte :: "char \<Rightarrow> char" where
  "upperByte c = (if isLower c then char_of (byte c - 32) else c)"

definition lowerByte :: "char \<Rightarrow> char" where
  "lowerByte c = (if isUpper c then char_of (byte c + 32) else c)"

subsection \<open>Package strconv\<close>

definition digitChar :: "nat \<Rightarrow> char" where
  "digitChar d = char_of (48 + d)"

function natDigits :: "nat \<Rightarrow> string" where
  "natDigits n = (if n < 10 then [digitChar n] else natDigits (n div 10) @ [digitChar (n mod 10)])"
  by pat_completeness auto
termination
  by (relation "measure id") auto

declare natDigits.simps [simp del]

definition Itoa :: "int \<Rightarrow> string" where
  "Itoa i = (if i < 0 then CHR ''-'' # natDigits (nat (- i)) else natDigits (nat i))"

subsection \<open>Package unicode/utf8\<close>

text \<open>
  \<open>utf8.Valid\<close>: the first byte of each encoding fixes its length and the range accepted
  for the second byte; every later byte is a continuation byte \<open>0x80..0xBF\<close>.
\<close>

definition inRange :: "nat \<Rightarrow> nat \<Rightarrow> nat \<Rightarrow> bool" where
  "inRange lo hi b = (lo \<le> b \<and> b \<le> hi)"

fun validFrom :: "nat list \<Rightarrow> bool" where
  "validFrom [] = True"
| "validFrom (b0 # bs) =
     (if b0 < 0x80 then validFrom bs
      else if inRange 0xC2 0xDF b0 then
        (case bs of b1 # r \<Rightarrow> inRange 0x80 0xBF b1 \<and> validFrom r | _ \<Rightarrow> False)
      else if inRange 0xE0 0xEF b0 then
        (case bs of b1 # b2 # r \<Rightarrow>
           (if b0 = 0xE0 then inRange 0xA0 0xBF b1
            else if b0 = 0xED then inRange 0x80 0x9F b1
            else inRange 0x80 0xBF b1)
           \<and> inRange 0x80 0xBF b2 \<and> validFrom r
         | _ \<Rightarrow> False)
      else if inRange 0xF0 0xF4 b0 then
        (case bs of b1 # b2 # b3 # r \<Rightarrow>
           (if b0 = 0xF0 then inRange 0x90 0xBF b1
            else if b0 = 0xF4 then inRange 0x80 0x8F b1
            else inRange 0x80 0xBF b1)
           \<and> inRange 0x80 0xBF b2 \<and> inRange 0x80 0xBF b3 \<and> validFrom r
         | _ \<Rightarrow> False)
      else False)"

definition utf8_Valid :: "bytes \<Rightarrow> bool" where
  "utf8_Valid p = validFrom (map byte p)"

subsection \<open>Package encoding/base64, the standard padded encoding\<close>

definition encodeStd :: string where
  "encodeStd = ''ABCDEFGHIJKLMNOPQRSTUVWXYZabcdefghijklmnopqrstuvwxyz0123456789+/''"

definition enc64 :: "nat \<Rightarrow> char" where
  "enc64 i = encodeStd ! (i mod 64)"

fun indexOf :: "'a list \<Rightarrow> 'a \<Rightarrow> nat option" where
  "indexOf [] c = None"
| "indexOf (x # xs) c = (if x = c then Some 0 else map_option Suc (indexOf xs c))"

text \<open>The decode map: the position of a byte in the alphabet, \<open>None\<close> for Go's \<open>0xff\<close>.\<close>

definition dec64 :: "char \<Rightarrow> nat option" where
  "dec64 c = indexOf encodeStd c"

text \<open>
  \<open>EncodeToString\<close>: three bytes make a 24-bit value (shifts written as multiplication,
  the bitwise or of disjoint fields as addition) read as four 6-bit indices; a rest of one
  or two bytes is padded with \<open>=\<close>.
\<close>

fun EncodeToString :: "bytes \<Rightarrow> string" where
  "EncodeToString [] = []"
| "EncodeToString [a] =
     (let val = byte a * 65536
      in [enc64 (val div 262144), enc64 (val div 4096), CHR ''='', CHR ''=''])"
| "EncodeToString [a, b] =
     (let val = byte a * 65536 + byte b * 256
      in [enc64 (val div 262144), enc64 (val div 4096), enc64 (val div 64), CHR ''=''])"
| "EncodeToString (a # b # c # rest) =
     (let val = byte a * 65536 + byte b * 256 + byte c
      in [enc64 (val div 262144), enc64 (val div 4096), enc64 (val div 64), enc64 val]
         @ EncodeToString rest)"

text \<open>
  \<open>DecodeString\<close>. The decoder skips every \<open>\r\<close> and \<open>\n\<close> of its input, also between
  and after the padding, so the model removes them first. What is left is read in quanta
  of four: four alphabet bytes give three bytes; two alphabet bytes and \<open>==\<close>, or three
  and \<open>=\<close>, give one or two bytes and must end the input; anything else is corrupt
  input (the encoding is not strict: the unused low bits of a padded quantum are not
  checked).
\<close>

definition isNewline :: "char \<Rightarrow> bool" where
  "isNewline c = (byte c = 10 \<or> byte c = 13)"

fun decodeQuanta :: "string \<Rightarrow> error + bytes" where
  "decodeQuanta [] = Inr []"
| "decodeQuanta (a # b # c # d # rest) =
     (case (dec64 a, dec64 b) of
        (Some i0, Some i1) \<Rightarrow>
          (if c = CHR ''='' then
             (if d = CHR ''='' \<and> rest = []
              then Inr [char_of ((i0 * 262144 + i1 * 4096) div 65536)]
              else Inl CorruptInputError)
           else
             (case dec64 c of
                None \<Rightarrow> Inl CorruptInputError
              | Some i2 \<Rightarrow>
                  (if d = CHR ''='' then
                     (if rest = []
                      then (let val = i0 * 262144 + i1 * 4096 + i2 * 64
                            in Inr [char_of (val div 65536), char_of (val div 256)])
                      else Inl CorruptInputError)
                   else
                     (case dec64 d of
                        None \<Rightarrow> Inl CorruptInputError
                      | Some i3 \<Rightarrow>
                          (let val = i0 * 262144 + i1 * 4096 + i2 * 64 + i3
                           in case decodeQuanta rest of
                                Inl e \<Rightarrow> Inl e
                              | Inr out \<Rightarrow>
                                  Inr (char_of (val div 65536) # char_of (val div 256)
                                       # char_of val # out))))))
      | _ \<Rightarrow> Inl CorruptInputError)"
| "decodeQuanta _ = Inl CorruptInputError"

definition DecodeString :: "string \<Rightarrow> error + bytes" where
  "DecodeString s = decodeQuanta (filter (\<lambda>c. \<not> isNewline c) s)"

subsection \<open>Package net/url: escaping and the query of a URL\<close>

definition isAlnum :: "char \<Rightarrow> bool" where
  "isAlnum c = (isLower c \<or> isUpper c \<or> isDigit c)"

text \<open>
  In a query component every byte is escaped except letters, digits and \<open>- _ . ~\<close>;
  a space becomes \<open>+\<close>, any other escaped byte \<open>%XX\<close> in upper-case hexadecimal.
\<close>

definition shouldEscape :: "char \<Rightarrow> bool" where
  "shouldEscape c = (\<not> (isAlnum c \<or> c \<in> set ''-_.~''))"

definition upperhex :: string where
  "upperhex = ''0123456789ABCDEF''"

definition escapeByte :: "char \<Rightarrow> string" where
  "escapeByte c =
     (if c = CHR '' '' then ''+''
      else if shouldEscape c
        then [CHR ''%'', upperhex ! (byte c div 16), upperhex ! (byte c mod 16)]
      else [c])"

definition QueryEscape :: "string \<Rightarrow> string" where
  "QueryEscape s = concat (map escapeByte s)"

text \<open>
  The \<open>RawQuery\<close> field of the URL that \<open>url.Parse\<close> returns for a string it accepts:
  \<open>Parse\<close> cuts the string at the first \<open>#\<close>, takes the scheme off what is before it,
  and cuts the rest at its first \<open>?\<close>; the scheme has no \<open>?\<close>, so the query is what
  follows the first \<open>?\<close> before the first \<open>#\<close>.
\<close>

definition url_RawQuery :: "string \<Rightarrow> string" where
  "url_RawQuery rawURL =
     (let u = takeWhile (\<lambda>c. c \<noteq> CHR ''#'') rawURL
      in drop 1 (dropWhile (\<lambda>c. c \<noteq> CHR ''?'') u))"

text \<open>
  \<open>url.QueryUnescape\<close>, to say what an escaped string denotes: \<open>+\<close> is a space, \<open>%\<close>
  must be followed by two hexadecimal digits and is the byte they denote, any other byte
  is itself; \<open>None\<close> is Go's \<open>EscapeError\<close>.
\<close>

definition ishex :: "char \<Rightarrow> bool" where
  "ishex c = (isDigit c \<or> (97 \<le> byte c \<and> byte c \<le> 102) \<or> (65 \<le> byte c \<and> byte c \<le> 70))"

definition unhex :: "char \<Rightarrow> nat" where
  "unhex c =
     (if isDigit c then byte c - 48
      else if 97 \<le> byte c \<and> byte c \<le> 102 then byte c - 97 + 10
      else if 65 \<le> byte c \<and> byte c \<le> 70 then byte c - 65 + 10
      else 0)"

fun QueryUnescape :: "string \<Rightarrow> string option" where
  "QueryUnescape [] = Some []"
| "QueryUnescape (c # cs) =
     (if c = CHR ''%'' then
        (case cs of
           a # b # rest \<Rightarrow>
             (if ishex a \<and> ishex b
              then map_option ((#) (char_of (unhex a * 16 + unhex b))) (QueryUnescape rest)
              else None)
         | _ \<Rightarrow> None)
      else if c = CHR ''+'' then map_option ((#) CHR '' '') (QueryUnescape cs)
      else map_option ((#) c) (QueryUnescape cs))"

subsection \<open>Package net/http: methods, header keys and header maps\<close>

text \<open>
  The token bytes of RFC 7230, which both a request method and a header key that is to be
  canonicalised must consist of: letters, digits and
  \<open>! # $ % & ' * + - . ^ _ ` | ~\<close> (\<open>0x27\<close> is the quote, \<open>0x60\<close> the backquote).
\<close>

definition isTokenByte :: "char \<Rightarrow> bool" where
  "isTokenByte c =
     (isAlnum c \<or> c \<in> set ''!#$%&*+-.^_|~'' \<or> byte c = 0x27 \<or> byte c = 0x60)"

definition validMethod :: "string \<Rightarrow> bool" where
  "validMethod method = (length method > 0 \<and> (\<forall>c \<in> set method. isTokenByte c))"

text \<open>
  \<open>textproto.CanonicalMIMEHeaderKey\<close>: a key with a byte that is not a token byte is
  returned unchanged; otherwise the first letter and every letter after a hyphen is made
  upper case and every other letter lower case.
\<close>

fun canonicalBytes :: "bool \<Rightarrow> string \<Rightarrow> string" where
  "canonicalBytes upper [] = []"
| "canonicalBytes upper (c # cs) =
     (let c' = (if upper \<and> isLower c then upperByte c
                else if \<not> upper \<and> isUpper c then lowerByte c
                else c)
      in c' # canonicalBytes (c' = CHR ''-'') cs)"

definition CanonicalMIMEHeaderKey :: "string \<Rightarrow> string" where
  "CanonicalMIMEHeaderKey s =
     (if \<forall>c \<in> set s. isTokenByte c then canonicalBytes True s else s)"

text \<open>\<open>http.Header\<close> is \<open>map[string][]string\<close>; the nil map and the empty map are both \<open>Map.empty\<close>.\<close>

type_synonym header = "string \<rightharpoonup> string list"

definition Header_Get :: "header \<Rightarrow> string \<Rightarrow> string" where
  "Header_Get h key =
     (case h (CanonicalMIMEHeaderKey key) of
        None \<Rightarrow> []
      | Some [] \<Rightarrow> []
      | Some (v # _) \<Rightarrow> v)"

definition Header_Add :: "header \<Rightarrow> string \<Rightarrow> string \<Rightarrow> header" where
  "Header_Add h key val =
     (let k = CanonicalMIMEHeaderKey key
      in h(k \<mapsto> (case h k of None \<Rightarrow> [] | Some vs \<Rightarrow> vs) @ [val]))"

subsection \<open>What the adapter takes from its surroundings\<close>

text \<open>
  Four things are not computed by the adapter and are parameters of the model:
  the process environment read by \<open>os.LookupEnv\<close>; what \<open>http.NewRequest\<close> makes of
  the URL string it is given, which is \<open>url.Parse\<close> and then the host without an empty
  port (\<open>'u\<close> is the parsed URL); the Unicode case mapping \<open>strings.ToUpper\<close> falls
  back to on a string that is not ASCII; and \<open>http.DetectContentType\<close>.
\<close>

record 'u platform =
  LookupEnv :: "string \<Rightarrow> string option"
  url_Parse :: "string \<Rightarrow> error + 'u"
  unicode_ToUpper :: "string \<Rightarrow> string"
  DetectContentType :: "bytes \<Rightarrow> string"

definition ToUpper :: "'u platform \<Rightarrow> string \<Rightarrow> string" where
  "ToUpper P s = (if isASCII s then map upperByte s else unicode_ToUpper P s)"

subsection \<open>Package events: the load-balancer records\<close>

text \<open>
  A Go map that the adapter ranges over is the list of its entries in the order in which
  that \<open>range\<close> visits them (Go leaves the order open, so every order of the list is a
  possible run); the keys of such a list are distinct. A map the adapter only stores is a
  HOL map.
\<close>

record ELBContext =
  TargetGroupArn :: string

record ALBTargetGroupRequestContext =
  ELB :: ELBContext

record ALBTargetGroupRequest =
  HTTPMethod :: string
  Path :: string
  QueryStringParameters :: "(string \<times> string) list"
  MultiValueQueryStringParameters :: "(string \<times> string list) list"
  Headers :: "(string \<times> string) list"
  MultiValueHeaders :: "(string \<times> string list) list"
  RequestContext :: ALBTargetGroupRequestContext
  IsBase64Encoded :: bool
  Body :: string

text \<open>The response record; its fields carry the prefix \<open>resp\<close> where the request has the same name.\<close>

record ALBTargetGroupResponse =
  StatusCode :: int
  StatusDescription :: string
  respHeaders :: "string \<rightharpoonup> string"
  respMultiValueHeaders :: header
  respBody :: string
  respIsBase64Encoded :: bool

text \<open>The zero value \<open>events.ALBTargetGroupResponse{}\<close>.\<close>

definition zeroResponse :: ALBTargetGroupResponse where
  "zeroResponse =
     \<lparr>StatusCode = 0, StatusDescription = [], respHeaders = Map.empty,
      respMultiValueHeaders = Map.empty, respBody = [], respIsBase64Encoded = False\<rparr>"

section \<open>core/types.go\<close>

definition StatusGatewayTimeout :: int where
  "StatusGatewayTimeout = 504"

definition StatusOK :: int where
  "StatusOK = 200"

definition TimeoutResponse :: ALBTargetGroupResponse where
  "TimeoutResponse =
     zeroResponse\<lparr>StatusCode := StatusGatewayTimeout,
                  StatusDescription := Itoa StatusGatewayTimeout\<rparr>"

text \<open>\<open>NewLoggedError\<close> with one argument, an error; the line it prints is not modelled.\<close>

definition NewLoggedError :: "string \<Rightarrow> error \<Rightarrow> error" where
  "NewLoggedError format a = Errorf format a"

section \<open>core/request_adapter.go: from an event to a request\<close>

definition CustomHostVariable :: string where
  "CustomHostVariable = ''GO_API_HOST''"

definition DefaultServerAddress :: string where
  "DefaultServerAddress = ''https://aws-serverless-go-api.com''"

record RequestAccessor =
  stripBasePath :: string

text \<open>\<open>StripBasePath\<close> returns the stored prefix and the accessor it has updated.\<close>

definition StripBasePath :: "string \<Rightarrow> RequestAccessor \<Rightarrow> string \<times> RequestAccessor" where
  "StripBasePath basePath r =
     (if TrimSpaces basePath = [] then ([], r\<lparr>stripBasePath := []\<rparr>)
      else
        let newBasePath = (if \<not> HasPrefix basePath ''/'' then ''/'' @ basePath else basePath);
            newBasePath = (if HasSuffix newBasePath ''/'' then butlast newBasePath
                           else newBasePath)
        in (newBasePath, r\<lparr>stripBasePath := newBasePath\<rparr>))"

text \<open>
  The context of a request: the value stored under the unexported key, if any.
  \<open>lambdacontext.FromContext\<close> reads the context the runtime passes in, modelled as the
  Lambda context it holds.
\<close>

record LambdaContext =
  AwsRequestID :: string
  InvokedFunctionArn :: string

record Context =
  lambdaValue :: "LambdaContext option"

record requestContext =
  lambdaContext :: "LambdaContext option"
  albContext :: ALBTargetGroupRequestContext

text \<open>
  \<open>http.Request\<close>: the method, the parsed URL, the header map, the body the reader
  yields, and the context value.
\<close>

record 'u Request =
  Method :: string
  URL :: 'u
  Header :: header
  reqBody :: bytes
  ctxValue :: "requestContext option"

text \<open>
  \<open>http.NewRequest\<close>: an empty method is GET, the method must be a token, the URL must
  parse; the new request has an empty header map and the background context.
\<close>

definition http_NewRequest :: "'u platform \<Rightarrow> string \<Rightarrow> string \<Rightarrow> bytes \<Rightarrow> error + 'u Request" where
  "http_NewRequest P method url body =
     (let method = (if method = [] then ''GET'' else method)
      in if \<not> validMethod method then Inl (InvalidMethod method)
         else case url_Parse P url of
                Inl err \<Rightarrow> Inl err
              | Inr u \<Rightarrow>
                  Inr \<lparr>Method = method, URL = u, Header = Map.empty, reqBody = body,
                       ctxValue = None\<rparr>)"

text \<open>Lines 89 to 100: the base path is cut off and a leading slash ensured.\<close>

definition normalizePath :: "RequestAccessor \<Rightarrow> string \<Rightarrow> string" where
  "normalizePath r path0 =
     (let path = (if stripBasePath r \<noteq> [] \<and> length (stripBasePath r) > 1
                  then (if HasPrefix path0 (stripBasePath r)
                        then ReplaceFirst path0 (stripBasePath r) []
                        else path0)
                  else path0)
      in if \<not> HasPrefix path ''/'' then ''/'' @ path else path)"

text \<open>Lines 101 to 105.\<close>

definition serverAddress :: "'u platform \<Rightarrow> string" where
  "serverAddress P =
     (case LookupEnv P CustomHostVariable of
        Some customAddress \<Rightarrow> customAddress
      | None \<Rightarrow> DefaultServerAddress)"

text \<open>One round of either query loop: the separator unless the string is empty, then the pair.\<close>

definition appendPair :: "string \<Rightarrow> string \<Rightarrow> string \<Rightarrow> string" where
  "appendPair queryString q v =
     (if queryString \<noteq> [] then queryString @ ''&'' else queryString)
     @ QueryEscape q @ ''='' @ QueryEscape v"

text \<open>Lines 109 to 120.\<close>

definition multiValueQuery :: "(string \<times> string list) list \<Rightarrow> string" where
  "multiValueQuery m =
     fold (\<lambda>(q, l) queryString. fold (\<lambda>v queryString. appendPair queryString q v) l queryString)
          m []"

text \<open>
  Lines 126 to 134; the loop ranges over the keys and looks each one up, which in the
  list of entries is the value beside the key.
\<close>

definition singleValueQuery :: "(string \<times> string) list \<Rightarrow> string" where
  "singleValueQuery m = fold (\<lambda>(q, v) queryString. appendPair queryString q v) m []"

text \<open>Lines 89 to 137: the URL string handed to \<open>http.NewRequest\<close>.\<close>

definition requestURL :: "'u platform \<Rightarrow> RequestAccessor \<Rightarrow> ALBTargetGroupRequest \<Rightarrow> string" where
  "requestURL P r req =
     (let path = serverAddress P @ normalizePath r (Path req)
      in if length (MultiValueQueryStringParameters req) > 0
           then path @ ''?'' @ multiValueQuery (MultiValueQueryStringParameters req)
         else if length (QueryStringParameters req) > 0
           then path @ ''?'' @ singleValueQuery (QueryStringParameters req)
         else path)"

text \<open>Lines 80 to 87.\<close>

definition decodeBody :: "ALBTargetGroupRequest \<Rightarrow> error + bytes" where
  "decodeBody req = (if IsBase64Encoded req then DecodeString (Body req) else Inr (Body req))"

text \<open>Lines 151 to 154.\<close>

definition addHeaders :: "(string \<times> string) list \<Rightarrow> 'u Request \<Rightarrow> 'u Request" where
  "addHeaders hs httpRequest =
     fold (\<lambda>(h, v) rq. rq\<lparr>Header := Header_Add (Header rq) h v\<rparr>) hs httpRequest"

text \<open>
  \<open>EventToRequest\<close>; \<open>Inl\<close> is the pair of a nil request and an error. The lines the two
  failure branches write to the log are not modelled.
\<close>

definition EventToRequest ::
  "'u platform \<Rightarrow> RequestAccessor \<Rightarrow> ALBTargetGroupRequest \<Rightarrow> error + 'u Request" where
  "EventToRequest P r req =
     (case decodeBody req of
        Inl err \<Rightarrow> Inl err
      | Inr decodedBody \<Rightarrow>
          (case http_NewRequest P (ToUpper P (HTTPMethod req)) (requestURL P r req) decodedBody of
             Inl err \<Rightarrow> Inl err
           | Inr httpRequest \<Rightarrow> Inr (addHeaders (Headers req) httpRequest)))"

definition addToContext :: "Context \<Rightarrow> 'u Request \<Rightarrow> ALBTargetGroupRequest \<Rightarrow> 'u Request" where
  "addToContext ctx req albRequest =
     (let lc = lambdaValue ctx;
          rc = \<lparr>lambdaContext = lc, albContext = RequestContext albRequest\<rparr>
      in req\<lparr>ctxValue := Some rc\<rparr>)"

definition EventToRequestWithContext ::
  "'u platform \<Rightarrow> RequestAccessor \<Rightarrow> Context \<Rightarrow> ALBTargetGroupRequest \<Rightarrow> error + 'u Request" where
  "EventToRequestWithContext P r ctx req =
     (case EventToRequest P r req of
        Inl err \<Rightarrow> Inl err
      | Inr httpRequest \<Rightarrow> Inr (addToContext ctx httpRequest req))"

section \<open>core/request_adapter.go: the response writer\<close>

definition defaultStatusCode :: int where
  "defaultStatusCode = - 1"

definition contentTypeHeaderKey :: string where
  "contentTypeHeaderKey = ''Content-Type''"

record ProxyResponseWriter =
  headers :: header
  body :: bytes
  status :: int

definition NewProxyResponseWriter :: ProxyResponseWriter where
  "NewProxyResponseWriter = \<lparr>headers = Map.empty, body = [], status = defaultStatusCode\<rparr>"

text \<open>
  The methods have pointer receivers: each takes the writer and returns its result with
  the writer as the call leaves it. \<open>Write\<close> returns the count and error of
  \<open>bytes.Buffer.Write\<close>, which are the length of the slice and nil.
\<close>

definition Write ::
  "'u platform \<Rightarrow> bytes \<Rightarrow> ProxyResponseWriter \<Rightarrow> (nat \<times> error option) \<times> ProxyResponseWriter" where
  "Write P bs r =
     (let r = (if status r = - 1 then r\<lparr>status := StatusOK\<rparr> else r);
          r = (if Header_Get (headers r) contentTypeHeaderKey = []
               then r\<lparr>headers := Header_Add (headers r) contentTypeHeaderKey
                                               (DetectContentType P bs)\<rparr>
               else r)
      in ((length bs, None), r\<lparr>body := body r @ bs\<rparr>))"

definition WriteHeader :: "int \<Rightarrow> ProxyResponseWriter \<Rightarrow> ProxyResponseWriter" where
  "WriteHeader st r = r\<lparr>status := st\<rparr>"

definition description :: "int \<Rightarrow> string" where
  "description statusCode = Itoa statusCode"

definition GetProxyResponse ::
  "ProxyResponseWriter \<Rightarrow> (ALBTargetGroupResponse \<times> error option) \<times> ProxyResponseWriter" where
  "GetProxyResponse r =
     (if status r = defaultStatusCode
      then ((zeroResponse, Some (ErrorString ''Status code not set on response'')), r)
      else
        let bb = body r;
            (output, isBase64) =
              (if utf8_Valid bb then (bb, False) else (EncodeToString bb, True))
        in ((\<lparr>StatusCode = status r,
               StatusDescription = description (status r),
               respHeaders = Map.empty,
               respMultiValueHeaders = headers r,
               respBody = output,
               respIsBase64Encoded = isBase64\<rparr>, None), r))"

section \<open>The Echo adapter\<close>

text \<open>
  The handler is outside the adapter. Through \<open>http.ResponseWriter\<close> it can do three
  things to the writer, any number of times and in any order: change the header map that
  \<open>Header()\<close> hands out, call \<open>Write\<close>, call \<open>WriteHeader\<close>. A handler is the list of
  calls it makes for a request, and \<open>ServeHTTP\<close> runs them on the writer.
\<close>

datatype writerCall =
    CallHeader "header \<Rightarrow> header"
  | CallWrite bytes
  | CallWriteHeader int

fun applyCall :: "'u platform \<Rightarrow> writerCall \<Rightarrow> ProxyResponseWriter \<Rightarrow> ProxyResponseWriter" where
  "applyCall P (CallHeader f) r = r\<lparr>headers := f (headers r)\<rparr>"
| "applyCall P (CallWrite bs) r = snd (Write P bs r)"
| "applyCall P (CallWriteHeader st) r = WriteHeader st r"

definition runCalls :: "'u platform \<Rightarrow> writerCall list \<Rightarrow> ProxyResponseWriter \<Rightarrow> ProxyResponseWriter" where
  "runCalls P calls r = fold (applyCall P) calls r"

record 'u EchoLambda =
  accessor :: RequestAccessor
  Echo :: "'u Request \<Rightarrow> writerCall list"

definition proxyInternal ::
  "'u platform \<Rightarrow> 'u EchoLambda \<Rightarrow> error + 'u Request \<Rightarrow> ALBTargetGroupResponse \<times> error option" where
  "proxyInternal P e res =
     (case res of
        Inl err \<Rightarrow>
          (TimeoutResponse,
           Some (NewLoggedError ''Could not convert proxy event to request: %v'' err))
      | Inr req \<Rightarrow>
          (let respWriter = runCalls P (Echo e req) NewProxyResponseWriter
           in case fst (GetProxyResponse respWriter) of
                (proxyResponse, Some err) \<Rightarrow>
                  (TimeoutResponse,
                   Some (NewLoggedError ''Error while generating proxy response: %v'' err))
              | (proxyResponse, None) \<Rightarrow> (proxyResponse, None)))"

definition ProxyWithContext ::
  "'u platform \<Rightarrow> 'u EchoLambda \<Rightarrow> Context \<Rightarrow> ALBTargetGroupRequest
     \<Rightarrow> ALBTargetGroupResponse \<times> error option" where
  "ProxyWithContext P e ctx req =
     proxyInternal P e (EventToRequestWithContext P (accessor e) ctx req)"

section \<open>Reading the encodings back\<close>

text \<open>
  The value of a decimal numeral, to say what the string \<open>Itoa\<close> returns denotes: an
  optional minus sign, then digits, most significant first.
\<close>

definition digitsValue :: "string \<Rightarrow> nat" where
  "digitsValue s = fold (\<lambda>c n. 10 * n + (byte c - 48)) s 0"

definition decimalValue :: "string \<Rightarrow> int" where
  "decimalValue s =
     (case s of
        [] \<Rightarrow> 0
      | c # cs \<Rightarrow> if c = CHR ''-'' then - int (digitsValue cs) else int (digitsValue s))"

text \<open>The bytes an escaped string is made of.\<close>

definition isQueryByte :: "char \<Rightarrow> bool" where
  "isQueryByte c = (isAlnum c \<or> c \<in> set ''-_.~+%'')"

section \<open>A platform for worked examples\<close>

text \<open>
  The examples below run on a platform with no environment variable set, a URL parser
  that accepts every string and returns it as it is, and a sniffer that knows one
  signature, a body that starts with \<open><html>\<close>, and answers
  \<open>text/plain; charset=utf-8\<close> otherwise; on the bodies the examples write that is
  Go's answer.
\<close>

definition examplePlatform :: "string platform" where
  "examplePlatform =
     \<lparr>LookupEnv = (\<lambda>name. None),
      url_Parse = (\<lambda>rawURL. Inr rawURL),
      unicode_ToUpper = (\<lambda>s. s),
      DetectContentType =
        (\<lambda>bs. if HasPrefix (map lowerByte bs) ''<html>'' then ''text/html; charset=utf-8''
              else ''text/plain; charset=utf-8'')\<rparr>"

text \<open>A writer that holds two bytes that are not UTF-8 and the status 201.\<close>

definition binaryWriter :: ProxyResponseWriter where
  "binaryWriter =
     \<lparr>headers = Map.empty, body = [char_of (255 :: nat), char_of (254 :: nat)], status = 201\<rparr>"

text \<open>
  Two records, one with a body that is not base64 and one in plain text; an adapter whose
  handler never touches the writer; a context without a Lambda context; and the request
  the second record is translated to.
\<close>

definition badBodyRequest :: ALBTargetGroupRequest where
  "badBodyRequest =
     \<lparr>HTTPMethod = ''GET'', Path = ''/'', QueryStringParameters = [],
      MultiValueQueryStringParameters = [], Headers = [], MultiValueHeaders = [],
      RequestContext = \<lparr>ELB = \<lparr>TargetGroupArn = ''arn''\<rparr>\<rparr>,
      IsBase64Encoded = True, Body = ''%%%''\<rparr>"

definition plainRequest :: ALBTargetGroupRequest where
  "plainRequest =
     \<lparr>HTTPMethod = ''get'', Path = ''/'', QueryStringParameters = [],
      MultiValueQueryStringParameters = [], Headers = [], MultiValueHeaders = [],
      RequestContext = \<lparr>ELB = \<lparr>TargetGroupArn = ''arn''\<rparr>\<rparr>,
      IsBase64Encoded = False, Body = ''ok''\<rparr>"

definition silentLambda :: "string EchoLambda" where
  "silentLambda = \<lparr>accessor = \<lparr>stripBasePath = []\<rparr>, Echo = (\<lambda>req. [])\<rparr>"

definition noContext :: Context where
  "noContext = \<lparr>lambdaValue = None\<rparr>"

definition plainHTTPRequest :: "string Request" where
  "plainHTTPRequest =
     \<lparr>Method = ''GET'', URL = ''https://aws-serverless-go-api.com/'',
      Header = Map.empty, reqBody = ''ok'',
      ctxValue = Some \<lparr>lambdaContext = None,
                        albContext = \<lparr>ELB = \<lparr>TargetGroupArn = ''arn''\<rparr>\<rparr>\<rparr>\<rparr>"

text \<open>A writer on which the handler has set a content type.\<close>

definition jsonWriter :: ProxyResponseWriter where
  "jsonWriter =
     \<lparr>headers = [contentTypeHeaderKey \<mapsto> [''application/json'']], body = [],
      status = defaultStatusCode\<rparr>"

text \<open>
  The query string in the spec's words: every key with each of its values, both
  escaped and joined with \<open>=\<close>, the pairs joined with \<open>&\<close>.
\<close>

fun joinWith :: "string \<Rightarrow> string list \<Rightarrow> string" where
  "joinWith sep [] = []"
| "joinWith sep [x] = x"
| "joinWith sep (x # y # ys) = x @ sep @ joinWith sep (y # ys)"

definition escapedPair :: "string \<Rightarrow> string \<Rightarrow> string" where
  "escapedPair q v = QueryEscape q @ ''='' @ QueryEscape v"

definition multiValuePairs :: "(string \<times> string list) list \<Rightarrow> string list" where
  "multiValuePairs m = concat (map (\<lambda>(q, l). map (escapedPair q) l) m)"

definition singleValuePairs :: "(string \<times> string) list \<Rightarrow> string list" where
  "singleValuePairs m = map (\<lambda>(q, v). escapedPair q v) m"

definition querySuffix :: "ALBTargetGroupRequest \<Rightarrow> string" where
  "querySuffix req =
     (if MultiValueQueryStringParameters req \<noteq> []
        then ''?'' @ joinWith ''&'' (multiValuePairs (MultiValueQueryStringParameters req))
      else if QueryStringParameters req \<noteq> []
        then ''?'' @ joinWith ''&'' (singleValuePairs (QueryStringParameters req))
      else [])"

text \<open>
  A record with a query inside its path and no query parameters, and a record with a
  fragment inside its path and the multi-value map of the spec's example.
\<close>

definition queryInPathRequest :: ALBTargetGroupRequest where
  "queryInPathRequest =
     \<lparr>HTTPMethod = ''GET'', Path = ''/a?x=1'', QueryStringParameters = [],
      MultiValueQueryStringParameters = [], Headers = [], MultiValueHeaders = [],
      RequestContext = \<lparr>ELB = \<lparr>TargetGroupArn = ''arn''\<rparr>\<rparr>,
      IsBase64Encoded = False, Body = []\<rparr>"

definition fragmentInPathRequest :: ALBTargetGroupRequest where
  "fragmentInPathRequest =
     \<lparr>HTTPMethod = ''GET'', Path = ''/a#b'', QueryStringParameters = [],
      MultiValueQueryStringParameters = [(''a'', [''1'', ''2''])], Headers = [],
      MultiValueHeaders = [],
      RequestContext = \<lparr>ELB = \<lparr>TargetGroupArn = ''arn''\<rparr>\<rparr>,
      IsBase64Encoded = False, Body = []\<rparr>"

text \<open>
  The record of the spec's example, both query maps with the key \<open>a\<close>, and in the
  multi-value map a second key whose name and value need escaping.
\<close>

definition escapingRequest :: ALBTargetGroupRequest where
  "escapingRequest =
     \<lparr>HTTPMethod = ''GET'', Path = ''/api/users'', QueryStringParameters = [(''a'', ''x'')],
      MultiValueQueryStringParameters = [(''a'', [''1'', ''2'']), (''b c'', [''&=''])],
      Headers = [], MultiValueHeaders = [],
      RequestContext = \<lparr>ELB = \<lparr>TargetGroupArn = ''arn''\<rparr>\<rparr>,
      IsBase64Encoded = False, Body = []\<rparr>"

text \<open>A record for the path \<open>/api/users\<close> without query parameters.\<close>

definition usersRequest :: ALBTargetGroupRequest where
  "usersRequest =
     \<lparr>HTTPMethod = ''GET'', Path = ''/api/users'', QueryStringParameters = [],
      MultiValueQueryStringParameters = [], Headers = [], MultiValueHeaders = [],
      RequestContext = \<lparr>ELB = \<lparr>TargetGroupArn = ''arn''\<rparr>\<rparr>,
      IsBase64Encoded = False, Body = []\<rparr>"

text \<open>The record of the spec's example: the base64 of \<open>hello\<close>.\<close>

definition helloRequest :: ALBTargetGroupRequest where
  "helloRequest =
     \<lparr>HTTPMethod = ''POST'', Path = ''/'', QueryStringParameters = [],
      MultiValueQueryStringParameters = [], Headers = [], MultiValueHeaders = [],
      RequestContext = \<lparr>ELB = \<lparr>TargetGroupArn = ''arn''\<rparr>\<rparr>,
      IsBase64Encoded = True, Body = ''aGVsbG8=''\<rparr>"

text \<open>
  The values a record's header list holds for a header key: those of every entry whose
  name has that key as its canonical form, in the order of the list.
\<close>

definition valuesFor :: "string \<Rightarrow> (string \<times> string) list \<Rightarrow> string list" where
  "valuesFor k hs = map snd (filter (\<lambda>(h, v). CanonicalMIMEHeaderKey h = k) hs)"

definition valuesOf :: "header \<Rightarrow> string \<Rightarrow> string list" where
  "valuesOf h k = (case h k of None \<Rightarrow> [] | Some vs \<Rightarrow> vs)"

text \<open>A record whose header map has two names that differ in case only.\<close>

definition twoAcceptRequest :: ALBTargetGroupRequest where
  "twoAcceptRequest =
     \<lparr>HTTPMethod = ''GET'', Path = ''/'', QueryStringParameters = [],
      MultiValueQueryStringParameters = [],
      Headers = [(''accept'', ''text/html''), (''Accept'', ''application/json'')],
      MultiValueHeaders = [],
      RequestContext = \<lparr>ELB = \<lparr>TargetGroupArn = ''arn''\<rparr>\<rparr>,
      IsBase64Encoded = False, Body = []\<rparr>"

text \<open>
  Modelled from the spec: the trivial echo handler of the round-trip property, which is
  not in the repository. It copies the headers of the request into the header map of the
  writer and writes the body of the request.
\<close>

definition echoHandler :: "'u Request \<Rightarrow> writerCall list" where
  "echoHandler req = [CallHeader (\<lambda>h. h ++ Header req), CallWrite (reqBody req)]"

text \<open>The bytes a body string stands for under its base64 flag.\<close>

definition bodyBytes :: "bool \<Rightarrow> string \<Rightarrow> error + bytes" where
  "bodyBytes isBase64 s = (if isBase64 then DecodeString s else Inr s)"

text \<open>The record the echo round trip returns for a request.\<close>

definition echoResponse :: "'u platform \<Rightarrow> 'u Request \<Rightarrow> ALBTargetGroupResponse \<times> error option" where
  "echoResponse P rq = fst (GetProxyResponse (runCalls P (echoHandler rq) NewProxyResponseWriter))"

text \<open>A record as a load balancer sends it: the header name in lower case.\<close>

definition lowerCaseHeaderRequest :: ALBTargetGroupRequest where
  "lowerCaseHeaderRequest =
     \<lparr>HTTPMethod = ''GET'', Path = ''/'', QueryStringParameters = [],
      MultiValueQueryStringParameters = [],
      Headers = [(''content-type'', ''text/plain'')],
      MultiValueHeaders = [],
      RequestContext = \<lparr>ELB = \<lparr>TargetGroupArn = ''arn''\<rparr>\<rparr>,
      IsBase64Encoded = False, Body = ''ok''\<rparr>"

section \<open>Facts about the library functions\<close>

lemma byte_less_256: "byte c < 256"
  unfolding byte_def by (rule nat_of_char_less_256)

lemma char_of_byte: "char_of (byte c) = c"
  by (simp add: byte_def)

lemma char_of_eq_byte: "n mod 256 = byte c \<Longrightarrow> char_of n = c"
  by (metis byte_def char_of_char char_of_mod_256)

lemma indexOf_nth: "distinct xs \<Longrightarrow> i < length xs \<Longrightarrow> indexOf xs (xs ! i) = Some i"
proof (induction xs arbitrary: i)
  case Nil
  then show ?case by simp
next
  case (Cons x xs)
  show ?case
  proof (cases i)
    case 0
    then show ?thesis by simp
  next
    case (Suc j)
    with Cons.prems have "xs ! j \<in> set xs" by simp
    with Cons.prems have "x \<noteq> xs ! j" by auto
    with Cons Suc show ?thesis by simp
  qed
qed

lemma length_encodeStd: "length encodeStd = 64"
  by (simp add: encodeStd_def)

lemma distinct_encodeStd: "distinct encodeStd"
  by (simp add: encodeStd_def)

lemma dec64_enc64: "dec64 (enc64 i) = Some (i mod 64)"
  unfolding dec64_def enc64_def
  by (rule indexOf_nth) (simp_all add: distinct_encodeStd length_encodeStd)

lemma enc64_in_alphabet: "enc64 i \<in> set encodeStd"
  unfolding enc64_def by (rule nth_mem) (simp add: length_encodeStd)

lemma enc64_not_pad: "enc64 i \<noteq> CHR ''=''"
proof -
  have "CHR ''='' \<notin> set encodeStd" by (simp add: encodeStd_def)
  with enc64_in_alphabet show ?thesis by metis
qed

lemma enc64_not_newline: "\<not> isNewline (enc64 i)"
proof -
  have "\<forall>c \<in> set encodeStd. \<not> isNewline c"
    by (simp add: encodeStd_def isNewline_def byte_def)
  with enc64_in_alphabet show ?thesis by blast
qed

lemma pad_not_newline: "\<not> isNewline CHR ''=''"
  by (simp add: isNewline_def byte_def)

lemma EncodeToString_no_newline: "filter (\<lambda>c. \<not> isNewline c) (EncodeToString bs) = EncodeToString bs"
  by (induction bs rule: EncodeToString.induct)
     (simp_all add: Let_def enc64_not_newline pad_not_newline)


lemma split64: "(n::nat) < 16777216 \<Longrightarrow>
  (n div 262144) mod 64 * 262144 + (n div 4096) mod 64 * 4096 + (n div 64) mod 64 * 64 + n mod 64 = n"
proof -
  assume b: "n < 16777216"
  have 1: "n = (n div 64) * 64 + n mod 64" by simp
  have 2: "n div 64 = (n div 4096) * 64 + (n div 64) mod 64"
  proof -
    have "n div 4096 = n div 64 div 64" by (simp add: div_mult2_eq[symmetric])
    then show ?thesis by simp
  qed
  have 3: "n div 4096 = (n div 262144) * 64 + (n div 4096) mod 64"
  proof -
    have "n div 262144 = n div 4096 div 64" by (simp add: div_mult2_eq[symmetric])
    then show ?thesis by simp
  qed
  have 4: "(n div 262144) mod 64 = n div 262144"
    using b by (simp add: less_mult_imp_div_less)
  have "n = ((( n div 262144) * 64 + (n div 4096) mod 64) * 64 + (n div 64) mod 64) * 64 + n mod 64"
    using 1 2 3 by presburger
  then show ?thesis using 4 by (simp add: algebra_simps)
qed

lemma bytes3:
  assumes "a < 256" "b < 256" "c < (256::nat)"
  shows "((a * 65536 + b * 256 + c) div 65536) mod 256 = a"
    "((a * 65536 + b * 256 + c) div 256) mod 256 = b"
    "(a * 65536 + b * 256 + c) mod 256 = c"
proof -
  have "(a * 65536 + b * 256 + c) div 65536 = a" using assms by simp
  then show "((a * 65536 + b * 256 + c) div 65536) mod 256 = a" using assms by simp
  have "(a * 65536 + b * 256 + c) div 256 = a * 256 + b" using assms by simp
  then show "((a * 65536 + b * 256 + c) div 256) mod 256 = b" using assms by simp
  have "a * 65536 + b * 256 + c = c + (a * 256 + b) * 256" by simp
  then have "(a * 65536 + b * 256 + c) mod 256 = c mod 256"
    by (simp only: mod_mult_self1)
  then show "(a * 65536 + b * 256 + c) mod 256 = c" using assms by simp
qed


lemma decodeQuanta_4:
  assumes "dec64 e0 = Some i0" "dec64 e1 = Some i1" "dec64 e2 = Some i2" "dec64 e3 = Some i3"
    and "e2 \<noteq> CHR ''=''" "e3 \<noteq> CHR ''=''"
  shows "decodeQuanta (e0 # e1 # e2 # e3 # rest) =
           (case decodeQuanta rest of
              Inl e \<Rightarrow> Inl e
            | Inr out \<Rightarrow>
                Inr (char_of ((i0 * 262144 + i1 * 4096 + i2 * 64 + i3) div 65536)
                     # char_of ((i0 * 262144 + i1 * 4096 + i2 * 64 + i3) div 256)
                     # char_of (i0 * 262144 + i1 * 4096 + i2 * 64 + i3) # out))"
  using assms by (simp add: Let_def)

lemma decodeQuanta_3:
  assumes "dec64 e0 = Some i0" "dec64 e1 = Some i1" "dec64 e2 = Some i2" "e2 \<noteq> CHR ''=''"
  shows "decodeQuanta [e0, e1, e2, CHR ''=''] =
           Inr [char_of ((i0 * 262144 + i1 * 4096 + i2 * 64) div 65536),
                char_of ((i0 * 262144 + i1 * 4096 + i2 * 64) div 256)]"
  using assms by (simp add: Let_def)

lemma decodeQuanta_2:
  assumes "dec64 e0 = Some i0" "dec64 e1 = Some i1"
  shows "decodeQuanta [e0, e1, CHR ''='', CHR ''=''] =
           Inr [char_of ((i0 * 262144 + i1 * 4096) div 65536)]"
  using assms by simp

lemma decodeQuanta_EncodeToString: "decodeQuanta (EncodeToString bs) = Inr bs"
proof (induction bs rule: EncodeToString.induct)
  case 1
  show ?case by simp
next
  case (2 a)
  define val where "val = byte a * 65536"
  have lt: "val < 16777216" using byte_less_256[of a] by (simp add: val_def)
  have z: "val mod 64 = 0" "val div 64 mod 64 = 0" by (simp_all add: val_def)
  have w: "val div 262144 mod 64 * 262144 + val div 4096 mod 64 * 4096 = val"
    using split64[OF lt] unfolding z by (simp only: mult_zero_left add_0_right)
  have "val div 65536 = byte a" by (simp add: val_def)
  then have "char_of (val div 65536) = a" by (simp add: char_of_byte)
  then show ?case
    unfolding EncodeToString.simps Let_def val_def[symmetric]
      decodeQuanta_2[OF dec64_enc64 dec64_enc64] w
    by simp
next
  case (3 a b)
  define val where "val = byte a * 65536 + byte b * 256"
  have lt: "val < 16777216" using byte_less_256[of a] byte_less_256[of b] by (simp add: val_def)
  have z: "val mod 64 = 0" by (simp add: val_def)
  have w: "val div 262144 mod 64 * 262144 + val div 4096 mod 64 * 4096 + val div 64 mod 64 * 64 = val"
    using split64[OF lt] unfolding z by (simp only: add_0_right)
  have "val = byte a * 65536 + byte b * 256 + 0" by (simp add: val_def)
  with bytes3[OF byte_less_256[of a] byte_less_256[of b], of 0]
  have "val div 65536 mod 256 = byte a" "val div 256 mod 256 = byte b" by simp_all
  then have "char_of (val div 65536) = a" "char_of (val div 256) = b"
    by (simp_all add: char_of_eq_byte)
  then show ?case
    unfolding EncodeToString.simps Let_def val_def[symmetric]
      decodeQuanta_3[OF dec64_enc64 dec64_enc64 dec64_enc64 enc64_not_pad] w
    by simp
next
  case (4 a b c rest)
  define val where "val = byte a * 65536 + byte b * 256 + byte c"
  have lt: "val < 16777216"
    using byte_less_256[of a] byte_less_256[of b] byte_less_256[of c] by (simp add: val_def)
  note w = split64[OF lt]
  from bytes3[OF byte_less_256[of a] byte_less_256[of b] byte_less_256[of c]]
  have "val div 65536 mod 256 = byte a" "val div 256 mod 256 = byte b" "val mod 256 = byte c"
    by (simp_all add: val_def)
  then have "char_of (val div 65536) = a" "char_of (val div 256) = b" "char_of val = c"
    by (simp_all add: char_of_eq_byte)
  with 4 show ?case
    unfolding EncodeToString.simps Let_def val_def[symmetric] append.simps
      decodeQuanta_4[OF dec64_enc64 dec64_enc64 dec64_enc64 dec64_enc64
                        enc64_not_pad enc64_not_pad] w
    by simp
qed

lemma DecodeString_EncodeToString: "DecodeString (EncodeToString bs) = Inr bs"
  by (simp add: DecodeString_def EncodeToString_no_newline decodeQuanta_EncodeToString)

section \<open>Properties of the response writer\<close>

lemma status_Write: "status (snd (Write P bs r)) = (if status r = - 1 then StatusOK else status r)"
  by (simp add: Write_def Let_def)

lemma status_runCalls_OK:
  "\<forall>st. CallWriteHeader st \<notin> set calls \<Longrightarrow> status r = StatusOK
     \<Longrightarrow> status (runCalls P calls r) = StatusOK"
  unfolding runCalls_def
proof (induction calls arbitrary: r)
  case Nil
  then show ?case by simp
next
  case (Cons c calls)
  have "status (applyCall P c r) = StatusOK"
    using Cons.prems by (cases c) (auto simp: status_Write StatusOK_def)
  with Cons show ?case by simp
qed

lemma status_runCalls_fresh:
  "CallWrite bs \<in> set calls \<Longrightarrow> \<forall>st. CallWriteHeader st \<notin> set calls \<Longrightarrow> status r = - 1
     \<Longrightarrow> status (runCalls P calls r) = StatusOK"
proof (induction calls arbitrary: r)
  case Nil
  then show ?case by simp
next
  case (Cons c calls)
  show ?case
  proof (cases c)
    case (CallHeader f)
    with Cons show ?thesis by (simp add: runCalls_def)
  next
    case (CallWrite bs')
    have "status (applyCall P c r) = StatusOK"
      using Cons.prems CallWrite by (simp add: status_Write)
    moreover have "\<forall>st. CallWriteHeader st \<notin> set calls" using Cons.prems by simp
    ultimately have "status (runCalls P calls (applyCall P c r)) = StatusOK"
      by (rule status_runCalls_OK[rotated])
    then show ?thesis by (simp add: runCalls_def)
  next
    case (CallWriteHeader st)
    with Cons.prems show ?thesis by auto
  qed
qed

text \<open>
  C2. On a new writer \<open>GetProxyResponse\<close> returns the zero record and an error. After
  any calls of the handler among which there is a \<open>Write\<close> (of any bytes) and no
  \<open>WriteHeader\<close>, it returns no error and a record with status code 200.
\<close>

theorem fresh_writer_status_sentinel:
  "fst (GetProxyResponse NewProxyResponseWriter)
     = (zeroResponse, Some (ErrorString ''Status code not set on response''))
   \<and> (CallWrite bs \<in> set calls \<and> (\<forall>st. CallWriteHeader st \<notin> set calls) \<longrightarrow>
        (\<exists>resp. fst (GetProxyResponse (runCalls P calls NewProxyResponseWriter)) = (resp, None)
                \<and> StatusCode resp = 200))"
proof (intro conjI impI)
  show "fst (GetProxyResponse NewProxyResponseWriter)
     = (zeroResponse, Some (ErrorString ''Status code not set on response''))"
    by (simp add: GetProxyResponse_def NewProxyResponseWriter_def)
next
  assume a: "CallWrite bs \<in> set calls \<and> (\<forall>st. CallWriteHeader st \<notin> set calls)"
  have "status NewProxyResponseWriter = - 1"
    by (simp add: NewProxyResponseWriter_def defaultStatusCode_def)
  with a have "status (runCalls P calls NewProxyResponseWriter) = StatusOK"
    using status_runCalls_fresh by blast
  then show "\<exists>resp. fst (GetProxyResponse (runCalls P calls NewProxyResponseWriter)) = (resp, None)
                \<and> StatusCode resp = 200"
    by (simp add: GetProxyResponse_def StatusOK_def defaultStatusCode_def Let_def split: prod.split)
qed

theorem fresh_writer_status_sentinel_witness:
  "fst (GetProxyResponse NewProxyResponseWriter)
     = (zeroResponse, Some (ErrorString ''Status code not set on response''))
   \<and> (\<exists>resp. fst (GetProxyResponse
                    (runCalls examplePlatform [CallWrite ''ok''] NewProxyResponseWriter))
                = (resp, None)
              \<and> StatusCode resp = 200)"
  using fresh_writer_status_sentinel [of "''ok''" "[CallWrite ''ok'']" examplePlatform]
  by simp

text \<open>
  C10. \<open>GetProxyResponse\<close> leaves the writer as it found it: headers, body buffer and
  status are those before the call, and a second call returns the record and error of the
  first.
\<close>

theorem GetProxyResponse_leaves_writer:
  "snd (GetProxyResponse r) = r
   \<and> fst (GetProxyResponse (snd (GetProxyResponse r))) = fst (GetProxyResponse r)
   \<and> headers (snd (GetProxyResponse r)) = headers r
   \<and> body (snd (GetProxyResponse r)) = body r
   \<and> status (snd (GetProxyResponse r)) = status r"
proof -
  have "snd (GetProxyResponse r) = r"
    by (simp add: GetProxyResponse_def Let_def split: prod.split)
  then show ?thesis by simp
qed

lemma byte_digitChar: "d < 10 \<Longrightarrow> byte (digitChar d) = 48 + d"
  by (simp add: byte_def digitChar_def)

lemma digitsValue_snoc: "digitsValue (s @ [c]) = 10 * digitsValue s + (byte c - 48)"
  by (simp add: digitsValue_def)

lemma digitsValue_natDigits: "digitsValue (natDigits n) = n"
proof (induction n rule: natDigits.induct)
  case (1 n)
  show ?case
  proof (cases "n < 10")
    case True
    then show ?thesis
      by (simp add: natDigits.simps[of n] digitsValue_def byte_digitChar)
  next
    case False
    with 1 have "digitsValue (natDigits (n div 10)) = n div 10" by simp
    with False show ?thesis
      by (simp add: natDigits.simps[of n] digitsValue_snoc byte_digitChar)
  qed
qed

lemma digitChar_not_minus: "d < 10 \<Longrightarrow> digitChar d \<noteq> CHR ''-''"
proof
  assume "d < 10" "digitChar d = CHR ''-''"
  then have "byte (digitChar d) = byte CHR ''-''" by simp
  with \<open>d < 10\<close> show False by (simp add: byte_digitChar) (simp add: byte_def)
qed

lemma natDigits_head: "\<exists>c cs. natDigits n = c # cs \<and> c \<noteq> CHR ''-''"
proof (induction n rule: natDigits.induct)
  case (1 n)
  show ?case
  proof (cases "n < 10")
    case True
    then show ?thesis by (simp add: natDigits.simps[of n] digitChar_not_minus)
  next
    case False
    with 1 obtain c cs where "natDigits (n div 10) = c # cs" "c \<noteq> CHR ''-''" by blast
    with False show ?thesis by (simp add: natDigits.simps[of n])
  qed
qed

lemma decimalValue_Itoa: "decimalValue (Itoa i) = i"
proof (cases "i < 0")
  case True
  then show ?thesis by (simp add: Itoa_def decimalValue_def digitsValue_natDigits)
next
  case False
  obtain c cs where h: "natDigits (nat i) = c # cs" "c \<noteq> CHR ''-''"
    using natDigits_head by blast
  have "digitsValue (c # cs) = nat i" using digitsValue_natDigits[of "nat i"] h by simp
  with False h show ?thesis by (simp add: Itoa_def decimalValue_def)
qed

text \<open>
  C5. When the status of the writer is not the unset value, \<open>GetProxyResponse\<close> returns
  no error and a record with that status; its description is \<open>Itoa\<close> of the status, a
  decimal numeral of that value; its body is the buffer with the flag false when the buffer
  is valid UTF-8, and otherwise the standard base64 encoding of the buffer, which decodes
  to the buffer, with the flag true.
\<close>

theorem GetProxyResponse_body_and_description:
  assumes "status r \<noteq> defaultStatusCode"
  shows "\<exists>resp. fst (GetProxyResponse r) = (resp, None)
          \<and> StatusCode resp = status r
          \<and> StatusDescription resp = Itoa (StatusCode resp)
          \<and> decimalValue (StatusDescription resp) = StatusCode resp
          \<and> (utf8_Valid (body r) \<longrightarrow>
                respBody resp = body r \<and> respIsBase64Encoded resp = False)
          \<and> (\<not> utf8_Valid (body r) \<longrightarrow>
                respBody resp = EncodeToString (body r) \<and> respIsBase64Encoded resp = True
                \<and> DecodeString (respBody resp) = Inr (body r))"
  using assms
  by (cases "utf8_Valid (body r)")
     (simp_all add: GetProxyResponse_def description_def decimalValue_Itoa
        DecodeString_EncodeToString Let_def)

lemma binaryWriter_not_utf8: "utf8_Valid (body binaryWriter) = False"
  by (simp add: binaryWriter_def utf8_Valid_def byte_def inRange_def)
lemma binaryWriter_base64: "EncodeToString (body binaryWriter) = ''//4=''"
  by (simp add: binaryWriter_def byte_def enc64_def encodeStd_def)
lemma Itoa_201: "Itoa 201 = ''201''"
  by code_simp

theorem GetProxyResponse_body_and_description_witness:
  "status binaryWriter \<noteq> defaultStatusCode
   \<and> fst (GetProxyResponse binaryWriter)
       = (\<lparr>StatusCode = 201, StatusDescription = ''201'', respHeaders = Map.empty,
           respMultiValueHeaders = Map.empty, respBody = ''//4='',
           respIsBase64Encoded = True\<rparr>, None)"
proof -
  have h: "status binaryWriter \<noteq> defaultStatusCode"
    by (simp add: binaryWriter_def defaultStatusCode_def)
  from GetProxyResponse_body_and_description[OF h] binaryWriter_not_utf8 binaryWriter_base64 Itoa_201
  obtain resp where r: "fst (GetProxyResponse binaryWriter) = (resp, None)"
    "StatusCode resp = 201" "StatusDescription resp = ''201''" "respBody resp = ''//4=''"
     "respIsBase64Encoded resp = True"
    by (auto simp: binaryWriter_def)
  have "respHeaders resp = Map.empty" "respMultiValueHeaders resp = Map.empty"
    using r(1) by (auto simp: GetProxyResponse_def binaryWriter_def defaultStatusCode_def Let_def split: if_splits prod.splits)
  with r h show ?thesis by simp
qed

lemma StatusCode_TimeoutResponse: "StatusCode TimeoutResponse = 504"
  by (simp add: TimeoutResponse_def StatusGatewayTimeout_def)

lemma TimeoutResponse_not_zero: "TimeoutResponse \<noteq> zeroResponse"
proof
  assume "TimeoutResponse = zeroResponse"
  then have "StatusCode TimeoutResponse = StatusCode zeroResponse" by simp
  then show False by (simp add: StatusCode_TimeoutResponse zeroResponse_def)
qed

text \<open>
  C4. When the translation of the event fails, and when it succeeds and
  \<open>GetProxyResponse\<close> fails on the writer the handler leaves, \<open>ProxyWithContext\<close>
  returns the timeout record, whose status code is 504 and which is not the zero record,
  together with an error.
\<close>

theorem ProxyWithContext_failsafe:
  "(EventToRequest P (accessor e) req = Inl err \<longrightarrow>
      ProxyWithContext P e ctx req
        = (TimeoutResponse,
           Some (NewLoggedError ''Could not convert proxy event to request: %v'' err)))
   \<and> (EventToRequestWithContext P (accessor e) ctx req = Inr rq
        \<and> fst (GetProxyResponse (runCalls P (Echo e rq) NewProxyResponseWriter)) = (resp, Some err)
      \<longrightarrow> ProxyWithContext P e ctx req
            = (TimeoutResponse,
               Some (NewLoggedError ''Error while generating proxy response: %v'' err)))
   \<and> StatusCode TimeoutResponse = 504 \<and> TimeoutResponse \<noteq> zeroResponse"
  by (simp add: ProxyWithContext_def proxyInternal_def EventToRequestWithContext_def
        StatusCode_TimeoutResponse TimeoutResponse_not_zero Let_def)

lemma EventToRequest_badBody:
  "EventToRequest examplePlatform (accessor silentLambda) badBodyRequest = Inl CorruptInputError"
  by (simp add: EventToRequest_def decodeBody_def badBodyRequest_def DecodeString_def
        isNewline_def byte_def dec64_def encodeStd_def)

lemma examplePlatform_fields:
  "LookupEnv examplePlatform name = None"
  "url_Parse examplePlatform rawURL = Inr rawURL"
  "unicode_ToUpper examplePlatform s = s"
  by (simp_all add: examplePlatform_def)

lemma ToUpper_get: "ToUpper examplePlatform ''get'' = ''GET''"
  by code_simp

lemma validMethod_GET: "validMethod ''GET''"
  by (simp add: validMethod_def isTokenByte_def isAlnum_def isUpper_def byte_def)

lemma EventToRequest_plain:
  "EventToRequest examplePlatform \<lparr>stripBasePath = []\<rparr> plainRequest
     = Inr \<lparr>Method = ''GET'', URL = ''https://aws-serverless-go-api.com/'',
            Header = Map.empty, reqBody = ''ok'', ctxValue = None\<rparr>"
  by (simp add: EventToRequest_def decodeBody_def plainRequest_def ToUpper_get
        http_NewRequest_def validMethod_GET requestURL_def serverAddress_def
        examplePlatform_fields normalizePath_def HasPrefix_def DefaultServerAddress_def
        addHeaders_def)

lemma EventToRequestWithContext_plain:
  "EventToRequestWithContext examplePlatform (accessor silentLambda) noContext plainRequest
     = Inr plainHTTPRequest"
  by (simp add: EventToRequestWithContext_def silentLambda_def EventToRequest_plain
        addToContext_def noContext_def plainHTTPRequest_def)
     (simp add: plainRequest_def)

lemma silentLambda_response:
  "fst (GetProxyResponse (runCalls examplePlatform (Echo silentLambda plainHTTPRequest)
                            NewProxyResponseWriter))
     = (zeroResponse, Some (ErrorString ''Status code not set on response''))"
  by (simp add: silentLambda_def runCalls_def GetProxyResponse_def NewProxyResponseWriter_def)

theorem ProxyWithContext_failsafe_witness:
  "ProxyWithContext examplePlatform silentLambda noContext badBodyRequest
     = (TimeoutResponse,
        Some (NewLoggedError ''Could not convert proxy event to request: %v'' CorruptInputError))
   \<and> ProxyWithContext examplePlatform silentLambda noContext plainRequest
     = (TimeoutResponse,
        Some (NewLoggedError ''Error while generating proxy response: %v''
                (ErrorString ''Status code not set on response'')))
   \<and> StatusCode TimeoutResponse = 504"
proof (intro conjI)
  show "ProxyWithContext examplePlatform silentLambda noContext badBodyRequest
     = (TimeoutResponse,
        Some (NewLoggedError ''Could not convert proxy event to request: %v'' CorruptInputError))"
    using ProxyWithContext_failsafe [where P = examplePlatform and e = silentLambda
            and req = badBodyRequest and err = CorruptInputError and ctx = noContext]
          EventToRequest_badBody
    by blast
  show "ProxyWithContext examplePlatform silentLambda noContext plainRequest
     = (TimeoutResponse,
        Some (NewLoggedError ''Error while generating proxy response: %v''
                (ErrorString ''Status code not set on response'')))"
    using ProxyWithContext_failsafe [where P = examplePlatform and e = silentLambda
            and req = plainRequest and err = "ErrorString ''Status code not set on response''"
            and ctx = noContext and rq = plainHTTPRequest and resp = zeroResponse]
          EventToRequestWithContext_plain silentLambda_response
    by blast
  show "StatusCode TimeoutResponse = 504"
    using ProxyWithContext_failsafe [where P = examplePlatform and e = silentLambda]
    by blast
qed

lemma canonical_contentType: "CanonicalMIMEHeaderKey contentTypeHeaderKey = contentTypeHeaderKey"
  by code_simp

lemma headers_Write_absent:
  assumes "Header_Get (headers r) contentTypeHeaderKey = []"
  shows "headers (snd (Write P bs r)) =
           (headers r)(contentTypeHeaderKey \<mapsto>
              (case headers r contentTypeHeaderKey of None \<Rightarrow> [] | Some vs \<Rightarrow> vs)
              @ [DetectContentType P bs])"
  using assms by (simp add: Write_def Let_def Header_Add_def canonical_contentType)

lemma headers_Write_present:
  assumes "Header_Get (headers r) contentTypeHeaderKey \<noteq> []"
  shows "headers (snd (Write P bs r)) = headers r"
  using assms by (simp add: Write_def Let_def)

lemma Header_Get_contentType:
  "Header_Get h contentTypeHeaderKey =
     (case h contentTypeHeaderKey of None \<Rightarrow> [] | Some [] \<Rightarrow> [] | Some (v # _) \<Rightarrow> v)"
  by (simp add: Header_Get_def canonical_contentType)

lemma first_value_Write:
  assumes "headers r contentTypeHeaderKey = Some (v # vs)"
  shows "\<exists>vs'. headers (snd (Write P bs r)) contentTypeHeaderKey = Some (v # vs')
            \<and> (v \<noteq> [] \<longrightarrow> vs' = vs)"
proof (cases "v = []")
  case True
  with assms have "Header_Get (headers r) contentTypeHeaderKey = []"
    by (simp add: Header_Get_contentType)
  from headers_Write_absent[OF this, of P bs] assms True show ?thesis by simp
next
  case False
  with assms have "Header_Get (headers r) contentTypeHeaderKey \<noteq> []"
    by (simp add: Header_Get_contentType)
  from headers_Write_present[OF this, of P bs] assms False show ?thesis by simp
qed

lemma first_value_applyCall:
  assumes "headers r contentTypeHeaderKey = Some (v # vs)" and "\<forall>f. c \<noteq> CallHeader f"
  shows "\<exists>vs'. headers (applyCall P c r) contentTypeHeaderKey = Some (v # vs')
            \<and> (v \<noteq> [] \<longrightarrow> vs' = vs)"
proof (cases c)
  case (CallHeader f)
  with assms show ?thesis by simp
next
  case (CallWrite bs)
  with first_value_Write[OF assms(1)] show ?thesis by simp
next
  case (CallWriteHeader st)
  with assms show ?thesis by (simp add: WriteHeader_def)
qed

lemma first_value_runCalls:
  assumes "headers r contentTypeHeaderKey = Some (v # vs)" and "\<forall>f. CallHeader f \<notin> set calls"
  shows "\<exists>vs'. headers (runCalls P calls r) contentTypeHeaderKey = Some (v # vs')
            \<and> (v \<noteq> [] \<longrightarrow> vs' = vs)"
  using assms
proof (induction calls arbitrary: r vs)
  case Nil
  then show ?case by (simp add: runCalls_def)
next
  case (Cons c calls)
  have "\<forall>f. c \<noteq> CallHeader f" using Cons.prems(2) by auto
  from first_value_applyCall[OF Cons.prems(1) this]
  obtain vs1 where 1: "headers (applyCall P c r) contentTypeHeaderKey = Some (v # vs1)"
    and 2: "v \<noteq> [] \<longrightarrow> vs1 = vs" by blast
  have "\<forall>f. CallHeader f \<notin> set calls" using Cons.prems(2) by auto
  from Cons.IH[OF 1 this]
  obtain vs' where "headers (runCalls P calls (applyCall P c r)) contentTypeHeaderKey = Some (v # vs')"
    and "v \<noteq> [] \<longrightarrow> vs' = vs1" by blast
  with 2 show ?case by (auto simp: runCalls_def)
qed

text \<open>
  C9. A \<open>Write\<close> on a writer whose header map has no entry \<open>Content-Type\<close> stores under
  that key the one value the sniffer returns for the bytes written, so that a value
  beginning with \<open>text/html\<close> is stored whenever the sniffer returns one. When the entry
  has a first value, no sequence of \<open>Write\<close> and \<open>WriteHeader\<close> calls changes that first
  value, and when it is not the empty string the whole entry stays as it is.
\<close>

theorem Write_content_type:
  "(headers r contentTypeHeaderKey = None \<longrightarrow>
      headers (snd (Write P bs r)) contentTypeHeaderKey = Some [DetectContentType P bs]
      \<and> Header_Get (headers (snd (Write P bs r))) contentTypeHeaderKey = DetectContentType P bs
      \<and> (HasPrefix (DetectContentType P bs) ''text/html'' \<longrightarrow>
           HasPrefix (Header_Get (headers (snd (Write P bs r))) contentTypeHeaderKey)
                     ''text/html''))
   \<and> (headers r contentTypeHeaderKey = Some (v # vs) \<and> (\<forall>f. CallHeader f \<notin> set calls) \<longrightarrow>
        (\<exists>vs'. headers (runCalls P calls r) contentTypeHeaderKey = Some (v # vs')
               \<and> (v \<noteq> [] \<longrightarrow> vs' = vs)))"
proof (intro conjI impI)
  assume a: "headers r contentTypeHeaderKey = None"
  then have "Header_Get (headers r) contentTypeHeaderKey = []"
    by (simp add: Header_Get_contentType)
  from headers_Write_absent[OF this, of P bs] a
  show 1: "headers (snd (Write P bs r)) contentTypeHeaderKey = Some [DetectContentType P bs]"
    by simp
  then show 2: "Header_Get (headers (snd (Write P bs r))) contentTypeHeaderKey
                  = DetectContentType P bs"
    by (simp add: Header_Get_contentType)
  assume "HasPrefix (DetectContentType P bs) ''text/html''"
  with 2 show "HasPrefix (Header_Get (headers (snd (Write P bs r))) contentTypeHeaderKey)
                     ''text/html''"
    by simp
next
  assume "headers r contentTypeHeaderKey = Some (v # vs) \<and> (\<forall>f. CallHeader f \<notin> set calls)"
  then show "\<exists>vs'. headers (runCalls P calls r) contentTypeHeaderKey = Some (v # vs')
               \<and> (v \<noteq> [] \<longrightarrow> vs' = vs)"
    using first_value_runCalls by blast
qed

lemma DetectContentType_html:
  "DetectContentType examplePlatform ''<html><body>hi</body></html>'' = ''text/html; charset=utf-8''"
  by code_simp

lemma HasPrefix_html: "HasPrefix ''text/html; charset=utf-8'' ''text/html''"
  by code_simp

theorem Write_content_type_witness:
  "headers (snd (Write examplePlatform ''<html><body>hi</body></html>'' NewProxyResponseWriter))
      contentTypeHeaderKey = Some [''text/html; charset=utf-8'']
   \<and> HasPrefix (Header_Get (headers (snd (Write examplePlatform ''<html><body>hi</body></html>''
                                           NewProxyResponseWriter))) contentTypeHeaderKey)
               ''text/html''
   \<and> headers (runCalls examplePlatform [CallWrite ''{}'', CallWriteHeader 201, CallWrite ''<html>'']
                 jsonWriter) contentTypeHeaderKey = Some [''application/json'']"
proof -
  have a: "headers NewProxyResponseWriter contentTypeHeaderKey = None"
    by (simp add: NewProxyResponseWriter_def)
  have b: "headers jsonWriter contentTypeHeaderKey = Some (''application/json'' # [])
       \<and> (\<forall>f. CallHeader f \<notin> set [CallWrite ''{}'', CallWriteHeader 201, CallWrite ''<html>''])"
    by (simp add: jsonWriter_def)
  from Write_content_type [where r = NewProxyResponseWriter and P = examplePlatform
        and bs = "''<html><body>hi</body></html>''"] a
  have 1: "headers (snd (Write examplePlatform ''<html><body>hi</body></html>'' NewProxyResponseWriter))
      contentTypeHeaderKey = Some [''text/html; charset=utf-8'']
   \<and> HasPrefix (Header_Get (headers (snd (Write examplePlatform ''<html><body>hi</body></html>''
                                           NewProxyResponseWriter))) contentTypeHeaderKey)
               ''text/html''"
    by (simp add: DetectContentType_html HasPrefix_html)
  from Write_content_type [where r = jsonWriter and P = examplePlatform
        and v = "''application/json''" and vs = "[]"
        and calls = "[CallWrite ''{}'', CallWriteHeader 201, CallWrite ''<html>'']"] b
  have 2: "headers (runCalls examplePlatform [CallWrite ''{}'', CallWriteHeader 201, CallWrite ''<html>'']
                 jsonWriter) contentTypeHeaderKey = Some [''application/json'']"
    by auto
  from 1 2 show ?thesis by blast
qed

lemma escapedPair_nonempty: "escapedPair q v \<noteq> []" "[] \<noteq> escapedPair q v"
  by (simp_all add: escapedPair_def)

lemma joinWith_snoc:
  "joinWith sep (xs @ [x]) = (if xs = [] then x else joinWith sep xs @ sep @ x)"
  by (induction sep xs rule: joinWith.induct) auto

lemma joinWith_nonempty: "xs \<noteq> [] \<Longrightarrow> \<forall>x \<in> set xs. x \<noteq> [] \<Longrightarrow> joinWith sep xs \<noteq> []"
  by (induction sep xs rule: joinWith.induct) auto

lemma appendPair_join:
  assumes "\<forall>x \<in> set ps. x \<noteq> []"
  shows "appendPair (joinWith ''&'' ps) q v = joinWith ''&'' (ps @ [escapedPair q v])"
proof (cases "ps = []")
  case True
  then show ?thesis by (simp add: appendPair_def escapedPair_def)
next
  case False
  with assms have "joinWith ''&'' ps \<noteq> []" using joinWith_nonempty by blast
  with False show ?thesis by (simp add: appendPair_def joinWith_snoc escapedPair_def)
qed

lemma inner_loop_join:
  assumes "\<forall>x \<in> set ps. x \<noteq> []"
  shows "fold (\<lambda>v queryString. appendPair queryString q v) l (joinWith ''&'' ps)
           = joinWith ''&'' (ps @ map (escapedPair q) l)"
  using assms
proof (induction l arbitrary: ps)
  case Nil
  then show ?case by simp
next
  case (Cons v l)
  have "\<forall>x \<in> set (ps @ [escapedPair q v]). x \<noteq> []"
    using Cons.prems by (simp add: escapedPair_nonempty)
  from Cons.IH[OF this] show ?case by (simp add: appendPair_join[OF Cons.prems])
qed

lemma outer_loop_join:
  assumes "\<forall>x \<in> set ps. x \<noteq> []"
  shows "fold (\<lambda>(q, l) queryString. fold (\<lambda>v queryString. appendPair queryString q v) l queryString)
              m (joinWith ''&'' ps)
           = joinWith ''&'' (ps @ multiValuePairs m)"
  using assms
proof (induction m arbitrary: ps)
  case Nil
  then show ?case by (simp add: multiValuePairs_def)
next
  case (Cons e m)
  obtain q l where e: "e = (q, l)" by (cases e)
  have "\<forall>x \<in> set (ps @ map (escapedPair q) l). x \<noteq> []"
    using Cons.prems by (auto simp: escapedPair_nonempty)
  from Cons.IH[OF this] show ?case
    by (simp add: e inner_loop_join[OF Cons.prems] multiValuePairs_def)
qed

lemma multiValueQuery_join: "multiValueQuery m = joinWith ''&'' (multiValuePairs m)"
  using outer_loop_join[of "[]" m] by (simp add: multiValueQuery_def)

lemma single_loop_join:
  assumes "\<forall>x \<in> set ps. x \<noteq> []"
  shows "fold (\<lambda>(q, v) queryString. appendPair queryString q v) m (joinWith ''&'' ps)
           = joinWith ''&'' (ps @ singleValuePairs m)"
  using assms
proof (induction m arbitrary: ps)
  case Nil
  then show ?case by (simp add: singleValuePairs_def)
next
  case (Cons e m)
  obtain q v where e: "e = (q, v)" by (cases e)
  have "\<forall>x \<in> set (ps @ [escapedPair q v]). x \<noteq> []"
    using Cons.prems by (simp add: escapedPair_nonempty)
  from Cons.IH[OF this] show ?case
    by (simp add: e appendPair_join[OF Cons.prems] singleValuePairs_def)
qed

lemma singleValueQuery_join: "singleValueQuery m = joinWith ''&'' (singleValuePairs m)"
  using single_loop_join[of "[]" m] by (simp add: singleValueQuery_def)

lemma addHeaders_fields:
  "URL (addHeaders hs rq) = URL rq" "reqBody (addHeaders hs rq) = reqBody rq"
  "Method (addHeaders hs rq) = Method rq" "ctxValue (addHeaders hs rq) = ctxValue rq"
  unfolding addHeaders_def
  by (induction hs arbitrary: rq; simp add: case_prod_beta)+

lemma http_NewRequest_fields:
  assumes "http_NewRequest P method url bs = Inr rq"
  shows "url_Parse P url = Inr (URL rq)" "reqBody rq = bs" "Header rq = Map.empty"
    "Method rq = (if method = [] then ''GET'' else method)" "validMethod (Method rq)"
  using assms
  by (auto simp: http_NewRequest_def Let_def split: if_splits sum.splits)

lemma EventToRequest_Inr:
  assumes "EventToRequest P r req = Inr rq"
  obtains bs rq0 where "decodeBody req = Inr bs"
    and "http_NewRequest P (ToUpper P (HTTPMethod req)) (requestURL P r req) bs = Inr rq0"
    and "rq = addHeaders (Headers req) rq0"
  using assms by (auto simp: EventToRequest_def split: sum.splits)

lemma EventToRequest_URL:
  assumes "EventToRequest P r req = Inr rq"
  shows "url_Parse P (requestURL P r req) = Inr (URL rq)"
proof -
  from assms obtain bs rq0
    where "http_NewRequest P (ToUpper P (HTTPMethod req)) (requestURL P r req) bs = Inr rq0"
      and "rq = addHeaders (Headers req) rq0"
    by (rule EventToRequest_Inr)
  then show ?thesis by (simp add: addHeaders_fields http_NewRequest_fields)
qed

lemma requestURL_querySuffix:
  "requestURL P r req = serverAddress P @ normalizePath r (Path req) @ querySuffix req"
  by (simp add: requestURL_def querySuffix_def multiValueQuery_join singleValueQuery_join Let_def)

lemma hex_digits:
  "\<forall>k \<in> set [0..<16]. ishex (upperhex ! k) \<and> unhex (upperhex ! k) = k \<and> isAlnum (upperhex ! k)"
  by code_simp

lemma upperhex_nth:
  assumes "k < 16"
  shows "ishex (upperhex ! k)" "unhex (upperhex ! k) = k" "isAlnum (upperhex ! k)"
  using hex_digits assms by auto

lemma shouldEscape_reserved:
  "shouldEscape CHR ''%''" "shouldEscape CHR ''+''"
  by code_simp+

lemma byte_hex_parts: "byte c div 16 < 16" "byte c mod 16 < 16"
  using byte_less_256[of c] by simp_all

lemma QueryUnescape_escapeByte:
  "QueryUnescape (escapeByte c @ rest) = map_option ((#) c) (QueryUnescape rest)"
proof (cases "c = CHR '' ''")
  case True
  then show ?thesis by (simp add: escapeByte_def)
next
  case notSpace: False
  show ?thesis
  proof (cases "shouldEscape c")
    case True
    have "char_of (byte c div 16 * 16 + byte c mod 16) = c"
      by (simp add: char_of_byte)
    with True notSpace show ?thesis
      by (simp add: escapeByte_def upperhex_nth[OF byte_hex_parts(1)]
            upperhex_nth[OF byte_hex_parts(2)])
  next
    case False
    then have "c \<noteq> CHR ''%''" "c \<noteq> CHR ''+''"
      using shouldEscape_reserved by auto
    with False notSpace show ?thesis by (simp add: escapeByte_def)
  qed
qed

lemma QueryUnescape_QueryEscape: "QueryUnescape (QueryEscape s) = Some s"
proof (induction s)
  case Nil
  then show ?case by (simp add: QueryEscape_def)
next
  case (Cons c s)
  have "QueryEscape (c # s) = escapeByte c @ QueryEscape s"
    by (simp add: QueryEscape_def)
  with Cons show ?case by (simp add: QueryUnescape_escapeByte)
qed

lemma isQueryByte_escapeByte: "x \<in> set (escapeByte c) \<Longrightarrow> isQueryByte x"
proof (cases "c = CHR '' ''")
  case True
  assume "x \<in> set (escapeByte c)"
  with True show ?thesis by (simp add: escapeByte_def isQueryByte_def)
next
  case notSpace: False
  assume x: "x \<in> set (escapeByte c)"
  show ?thesis
  proof (cases "shouldEscape c")
    case True
    with notSpace x have "x = CHR ''%'' \<or> x = upperhex ! (byte c div 16)
        \<or> x = upperhex ! (byte c mod 16)"
      by (simp add: escapeByte_def)
    then show ?thesis
      using upperhex_nth(3)[OF byte_hex_parts(1), of c] upperhex_nth(3)[OF byte_hex_parts(2), of c]
      by (auto simp: isQueryByte_def)
  next
    case False
    with notSpace x have "x = c" by (simp add: escapeByte_def)
    with False show ?thesis by (auto simp: isQueryByte_def shouldEscape_def)
  qed
qed

lemma isQueryByte_QueryEscape: "x \<in> set (QueryEscape s) \<Longrightarrow> isQueryByte x"
  by (auto simp: QueryEscape_def isQueryByte_escapeByte)

lemma not_isQueryByte:
  "\<not> isQueryByte CHR ''#''" "\<not> isQueryByte CHR ''?''" "\<not> isQueryByte CHR ''&''"
  "\<not> isQueryByte CHR ''=''"
  by code_simp+

lemma hash_escapedPair: "CHR ''#'' \<notin> set (escapedPair q v)"
  using isQueryByte_QueryEscape not_isQueryByte(1) by (auto simp: escapedPair_def)

lemma set_joinWith: "set (joinWith sep xs) \<subseteq> set sep \<union> (\<Union>x \<in> set xs. set x)"
  by (induction sep xs rule: joinWith.induct) auto

lemma hash_multiValuePairs: "CHR ''#'' \<notin> set (joinWith ''&'' (multiValuePairs m))"
proof -
  have "\<forall>x \<in> set (multiValuePairs m). CHR ''#'' \<notin> set x"
    by (auto simp: multiValuePairs_def hash_escapedPair)
  with set_joinWith[of "''&''" "multiValuePairs m"] show ?thesis by auto
qed

lemma hash_singleValuePairs: "CHR ''#'' \<notin> set (joinWith ''&'' (singleValuePairs m))"
proof -
  have "\<forall>x \<in> set (singleValuePairs m). CHR ''#'' \<notin> set x"
    by (auto simp: singleValuePairs_def hash_escapedPair)
  with set_joinWith[of "''&''" "singleValuePairs m"] show ?thesis by auto
qed

lemma set_ReplaceFirst_empty: "set (ReplaceFirst s old []) \<subseteq> set s"
proof (induction s)
  case Nil
  then show ?case by simp
next
  case (Cons c s)
  have "set (drop (length old) (c # s)) \<subseteq> set (c # s)" by (rule set_drop_subset)
  with Cons show ?case by auto
qed

lemma set_normalizePath: "set (normalizePath r p) \<subseteq> insert CHR ''/'' (set p)"
  using set_ReplaceFirst_empty[of p "stripBasePath r"]
  by (auto simp: normalizePath_def Let_def)

lemma url_RawQuery_appended:
  assumes "CHR ''?'' \<notin> set base" "CHR ''#'' \<notin> set base" "CHR ''#'' \<notin> set qs"
  shows "url_RawQuery (base @ ''?'' @ qs) = qs"
proof -
  have "\<forall>x \<in> set (base @ ''?'' @ qs). x \<noteq> CHR ''#''"
    using assms by auto
  then have t: "takeWhile (\<lambda>c. c \<noteq> CHR ''#'') (base @ ''?'' @ qs) = base @ ''?'' @ qs"
    by (simp only: takeWhile_eq_all_conv)
  have "\<forall>x \<in> set base. x \<noteq> CHR ''?''" using assms(1) by auto
  then have d: "dropWhile (\<lambda>c. c \<noteq> CHR ''?'') (base @ ''?'' @ qs) = ''?'' @ qs"
    by (simp add: dropWhile_append2)
  show ?thesis unfolding url_RawQuery_def Let_def t d by simp
qed

lemma url_RawQuery_none:
  assumes "CHR ''?'' \<notin> set base"
  shows "url_RawQuery base = []"
proof -
  have "set (takeWhile (\<lambda>c. c \<noteq> CHR ''#'') base) \<subseteq> set base"
    using set_takeWhileD by fastforce
  with assms have "\<forall>c \<in> set (takeWhile (\<lambda>c. c \<noteq> CHR ''#'') base). c \<noteq> CHR ''?''"
    by auto
  then have d: "dropWhile (\<lambda>c. c \<noteq> CHR ''?'') (takeWhile (\<lambda>c. c \<noteq> CHR ''#'') base) = []"
    by (simp only: dropWhile_eq_Nil_conv)
  show ?thesis unfolding url_RawQuery_def Let_def d by simp
qed

lemma EventToRequest_GET_example:
  assumes "HTTPMethod req = ''GET''" "IsBase64Encoded req = False" "Headers req = []"
  shows "EventToRequest examplePlatform r req
    = Inr \<lparr>Method = ''GET'', URL = requestURL examplePlatform r req, Header = Map.empty,
           reqBody = Body req, ctxValue = None\<rparr>"
proof -
  have "ToUpper examplePlatform ''GET'' = ''GET''"
    by code_simp
  with assms show ?thesis
    by (simp add: EventToRequest_def decodeBody_def examplePlatform_fields
        http_NewRequest_def validMethod_GET addHeaders_def)
qed

lemma requestURL_queryInPath:
  "requestURL examplePlatform \<lparr>stripBasePath = []\<rparr> queryInPathRequest
     = ''https://aws-serverless-go-api.com/a?x=1''"
  by code_simp

lemma requestURL_fragmentInPath:
  "requestURL examplePlatform \<lparr>stripBasePath = []\<rparr> fragmentInPathRequest
     = ''https://aws-serverless-go-api.com/a#b?a=1&a=2''"
  by code_simp

lemma requestURL_escaping:
  "requestURL examplePlatform \<lparr>stripBasePath = []\<rparr> escapingRequest
     = ''https://aws-serverless-go-api.com/api/users?a=1&a=2&b+c=%26%3D''"
  by code_simp

lemma url_RawQuery_examples:
  "url_RawQuery ''https://aws-serverless-go-api.com/a?x=1'' = ''x=1''"
  "url_RawQuery ''https://aws-serverless-go-api.com/a#b?a=1&a=2'' = []"
  by code_simp+

lemma EventToRequest_queryInPath:
  "EventToRequest examplePlatform \<lparr>stripBasePath = []\<rparr> queryInPathRequest
    = Inr \<lparr>Method = ''GET'', URL = ''https://aws-serverless-go-api.com/a?x=1'',
           Header = Map.empty, reqBody = [], ctxValue = None\<rparr>"
  using EventToRequest_GET_example[of queryInPathRequest "\<lparr>stripBasePath = []\<rparr>"]
  by (simp add: requestURL_queryInPath) (simp add: queryInPathRequest_def)

lemma EventToRequest_fragmentInPath:
  "EventToRequest examplePlatform \<lparr>stripBasePath = []\<rparr> fragmentInPathRequest
    = Inr \<lparr>Method = ''GET'', URL = ''https://aws-serverless-go-api.com/a#b?a=1&a=2'',
           Header = Map.empty, reqBody = [], ctxValue = None\<rparr>"
  using EventToRequest_GET_example[of fragmentInPathRequest "\<lparr>stripBasePath = []\<rparr>"]
  by (simp add: requestURL_fragmentInPath) (simp add: fragmentInPathRequest_def)

lemma EventToRequest_escaping:
  "EventToRequest examplePlatform \<lparr>stripBasePath = []\<rparr> escapingRequest
    = Inr \<lparr>Method = ''GET'',
           URL = ''https://aws-serverless-go-api.com/api/users?a=1&a=2&b+c=%26%3D'',
           Header = Map.empty, reqBody = [], ctxValue = None\<rparr>"
  using EventToRequest_GET_example[of escapingRequest "\<lparr>stripBasePath = []\<rparr>"]
  by (simp add: requestURL_escaping) (simp add: escapingRequest_def)

text \<open>
  C3, as stated, fails. With both query maps empty and the path \<open>/a?x=1\<close> the URL of the
  request has the query \<open>x=1\<close>; with the multi-value map of the spec's example and the
  path \<open>/a#b\<close> its query is empty, the pairs being part of the fragment.
\<close>

theorem query_from_path_counterexample:
  "MultiValueQueryStringParameters queryInPathRequest = []
   \<and> QueryStringParameters queryInPathRequest = []
   \<and> \<not> isl (EventToRequest examplePlatform \<lparr>stripBasePath = []\<rparr> queryInPathRequest)
   \<and> URL (projr (EventToRequest examplePlatform \<lparr>stripBasePath = []\<rparr> queryInPathRequest))
       = ''https://aws-serverless-go-api.com/a?x=1''
   \<and> url_RawQuery
         (URL (projr (EventToRequest examplePlatform \<lparr>stripBasePath = []\<rparr> queryInPathRequest)))
       = ''x=1''
   \<and> MultiValueQueryStringParameters fragmentInPathRequest = [(''a'', [''1'', ''2''])]
   \<and> \<not> isl (EventToRequest examplePlatform \<lparr>stripBasePath = []\<rparr> fragmentInPathRequest)
   \<and> URL (projr (EventToRequest examplePlatform \<lparr>stripBasePath = []\<rparr> fragmentInPathRequest))
       = ''https://aws-serverless-go-api.com/a#b?a=1&a=2''
   \<and> url_RawQuery
         (URL (projr (EventToRequest examplePlatform \<lparr>stripBasePath = []\<rparr>
                        fragmentInPathRequest)))
       = []"
proof -
  have "MultiValueQueryStringParameters queryInPathRequest = []"
    "QueryStringParameters queryInPathRequest = []"
    by (simp_all add: queryInPathRequest_def)
  moreover have "MultiValueQueryStringParameters fragmentInPathRequest = [(''a'', [''1'', ''2''])]"
    by (simp add: fragmentInPathRequest_def)
  ultimately show ?thesis
    by (simp add: EventToRequest_queryInPath EventToRequest_fragmentInPath url_RawQuery_examples)
qed

lemma EventToRequest_ignores_single:
  assumes "MultiValueQueryStringParameters req \<noteq> []"
  shows "EventToRequest P r (req\<lparr>QueryStringParameters := single\<rparr>) = EventToRequest P r req"
proof -
  have u: "requestURL P r (req\<lparr>QueryStringParameters := single\<rparr>) = requestURL P r req"
    using assms by (simp add: requestURL_querySuffix querySuffix_def)
  show ?thesis by (simp add: EventToRequest_def decodeBody_def u cong: sum.case_cong)
qed

lemma base_without:
  assumes "c \<noteq> CHR ''/''" "c \<notin> set (serverAddress P)" "c \<notin> set (Path req)"
  shows "c \<notin> set (serverAddress P @ normalizePath r (Path req))"
  using assms set_normalizePath[of r "Path req"] by auto

text \<open>
  C3, amended. Let the server address and the path of the record contain neither \<open>?\<close>
  nor \<open>#\<close>, let the translation succeed, and let \<open>rawQuery\<close> read the query of a parsed
  URL as \<open>url.Parse\<close> sets it. Then the query of the request's URL is: when the
  multi-value map is not empty, its escaped pairs joined, and the whole translation is
  the same whatever the single-value map holds; when it is empty and the single-value map
  is not, the escaped pairs of that map; when both are empty, the empty string, and the
  URL string has no \<open>?\<close>. Escaping is read back by \<open>QueryUnescape\<close> and leaves only
  letters, digits and \<open>- _ . ~ + %\<close>.
\<close>

theorem resolved_query_string:
  assumes "CHR ''?'' \<notin> set (serverAddress P)" and "CHR ''#'' \<notin> set (serverAddress P)"
    and "CHR ''?'' \<notin> set (Path req)" and "CHR ''#'' \<notin> set (Path req)"
    and "\<forall>s u. url_Parse P s = Inr u \<longrightarrow> rawQuery u = url_RawQuery s"
    and "EventToRequest P r req = Inr rq"
  shows "(MultiValueQueryStringParameters req \<noteq> [] \<longrightarrow>
            rawQuery (URL rq)
              = joinWith ''&'' (multiValuePairs (MultiValueQueryStringParameters req))
            \<and> requestURL P r req
                = serverAddress P @ normalizePath r (Path req) @ ''?''
                  @ joinWith ''&'' (multiValuePairs (MultiValueQueryStringParameters req))
            \<and> EventToRequest P r (req\<lparr>QueryStringParameters := single\<rparr>)
                = EventToRequest P r req)
    \<and> (MultiValueQueryStringParameters req = [] \<and> QueryStringParameters req \<noteq> [] \<longrightarrow>
            rawQuery (URL rq) = joinWith ''&'' (singleValuePairs (QueryStringParameters req))
            \<and> requestURL P r req
                = serverAddress P @ normalizePath r (Path req) @ ''?''
                  @ joinWith ''&'' (singleValuePairs (QueryStringParameters req)))
    \<and> (MultiValueQueryStringParameters req = [] \<and> QueryStringParameters req = [] \<longrightarrow>
            rawQuery (URL rq) = []
            \<and> CHR ''?'' \<notin> set (requestURL P r req)
            \<and> requestURL P r req = serverAddress P @ normalizePath r (Path req))
    \<and> url_Parse P (requestURL P r req) = Inr (URL rq)
    \<and> QueryUnescape (QueryEscape s) = Some s
    \<and> (\<forall>c \<in> set (QueryEscape s). isQueryByte c)"
proof -
  let ?base = "serverAddress P @ normalizePath r (Path req)"
  have q: "CHR ''?'' \<notin> set ?base" and h: "CHR ''#'' \<notin> set ?base"
    using assms(1-4) by (simp_all add: base_without del: set_append)
  have p: "url_Parse P (requestURL P r req) = Inr (URL rq)"
    using assms(6) by (rule EventToRequest_URL)
  with assms(5) have rq: "rawQuery (URL rq) = url_RawQuery (requestURL P r req)"
    by blast
  have u: "requestURL P r req = ?base @ querySuffix req"
    by (simp add: requestURL_querySuffix)
  have m: "MultiValueQueryStringParameters req \<noteq> [] \<longrightarrow>
      rawQuery (URL rq) = joinWith ''&'' (multiValuePairs (MultiValueQueryStringParameters req))
      \<and> requestURL P r req
          = ?base @ ''?'' @ joinWith ''&'' (multiValuePairs (MultiValueQueryStringParameters req))"
  proof
    assume a: "MultiValueQueryStringParameters req \<noteq> []"
    then have "requestURL P r req
        = ?base @ ''?'' @ joinWith ''&'' (multiValuePairs (MultiValueQueryStringParameters req))"
      unfolding u by (simp add: querySuffix_def)
    then show "rawQuery (URL rq) = joinWith ''&'' (multiValuePairs (MultiValueQueryStringParameters req))
      \<and> requestURL P r req
          = ?base @ ''?'' @ joinWith ''&'' (multiValuePairs (MultiValueQueryStringParameters req))"
      using url_RawQuery_appended[OF q h hash_multiValuePairs] rq by simp
  qed
  have s: "MultiValueQueryStringParameters req = [] \<and> QueryStringParameters req \<noteq> [] \<longrightarrow>
      rawQuery (URL rq) = joinWith ''&'' (singleValuePairs (QueryStringParameters req))
      \<and> requestURL P r req
          = ?base @ ''?'' @ joinWith ''&'' (singleValuePairs (QueryStringParameters req))"
  proof
    assume a: "MultiValueQueryStringParameters req = [] \<and> QueryStringParameters req \<noteq> []"
    then have "requestURL P r req
        = ?base @ ''?'' @ joinWith ''&'' (singleValuePairs (QueryStringParameters req))"
      unfolding u by (simp add: querySuffix_def)
    then show "rawQuery (URL rq) = joinWith ''&'' (singleValuePairs (QueryStringParameters req))
      \<and> requestURL P r req
          = ?base @ ''?'' @ joinWith ''&'' (singleValuePairs (QueryStringParameters req))"
      using url_RawQuery_appended[OF q h hash_singleValuePairs] rq by simp
  qed
  have n: "MultiValueQueryStringParameters req = [] \<and> QueryStringParameters req = [] \<longrightarrow>
      rawQuery (URL rq) = [] \<and> CHR ''?'' \<notin> set (requestURL P r req)
      \<and> requestURL P r req = ?base"
  proof
    assume a: "MultiValueQueryStringParameters req = [] \<and> QueryStringParameters req = []"
    then have e: "requestURL P r req = ?base"
      unfolding u by (simp add: querySuffix_def)
    with q url_RawQuery_none[OF q] rq
    show "rawQuery (URL rq) = [] \<and> CHR ''?'' \<notin> set (requestURL P r req)
      \<and> requestURL P r req = ?base"
      by simp
  qed
  have i: "MultiValueQueryStringParameters req \<noteq> [] \<longrightarrow>
      EventToRequest P r (req\<lparr>QueryStringParameters := single\<rparr>) = EventToRequest P r req"
    using EventToRequest_ignores_single by blast
  have e: "QueryUnescape (QueryEscape s) = Some s" "\<forall>c \<in> set (QueryEscape s). isQueryByte c"
    using QueryUnescape_QueryEscape isQueryByte_QueryEscape by blast+
  from m s n i p e q show ?thesis by simp
qed

theorem resolved_query_string_witness:
  "CHR ''?'' \<notin> set (serverAddress examplePlatform)
   \<and> CHR ''#'' \<notin> set (serverAddress examplePlatform)
   \<and> CHR ''?'' \<notin> set (Path escapingRequest) \<and> CHR ''#'' \<notin> set (Path escapingRequest)
   \<and> MultiValueQueryStringParameters escapingRequest \<noteq> []
   \<and> \<not> isl (EventToRequest examplePlatform \<lparr>stripBasePath = []\<rparr> escapingRequest)
   \<and> url_RawQuery
        (URL (projr (EventToRequest examplePlatform \<lparr>stripBasePath = []\<rparr> escapingRequest)))
       = joinWith ''&'' (multiValuePairs (MultiValueQueryStringParameters escapingRequest))
   \<and> joinWith ''&'' (multiValuePairs (MultiValueQueryStringParameters escapingRequest))
       = ''a=1&a=2&b+c=%26%3D''
   \<and> QueryUnescape (QueryEscape ''&='') = Some ''&=''"
proof -
  have a: "CHR ''?'' \<notin> set (serverAddress examplePlatform)"
    "CHR ''#'' \<notin> set (serverAddress examplePlatform)"
    by code_simp+
  have b: "CHR ''?'' \<notin> set (Path escapingRequest)" "CHR ''#'' \<notin> set (Path escapingRequest)"
    by (simp_all add: escapingRequest_def)
  have c: "\<forall>s u. url_Parse examplePlatform s = Inr u \<longrightarrow> url_RawQuery u = url_RawQuery s"
    by (simp add: examplePlatform_fields)
  have d: "EventToRequest examplePlatform \<lparr>stripBasePath = []\<rparr> escapingRequest
      = Inr (projr (EventToRequest examplePlatform \<lparr>stripBasePath = []\<rparr> escapingRequest))"
    by (simp add: EventToRequest_escaping)
  have m: "MultiValueQueryStringParameters escapingRequest \<noteq> []"
    by (simp add: escapingRequest_def)
  have j: "joinWith ''&'' (multiValuePairs (MultiValueQueryStringParameters escapingRequest))
       = ''a=1&a=2&b+c=%26%3D''"
    by code_simp
  from resolved_query_string [OF a b c d, where s = "''&=''"] m
  have "url_RawQuery
        (URL (projr (EventToRequest examplePlatform \<lparr>stripBasePath = []\<rparr> escapingRequest)))
       = joinWith ''&'' (multiValuePairs (MultiValueQueryStringParameters escapingRequest))"
    and "QueryUnescape (QueryEscape ''&='') = Some ''&=''"
    by blast+
  with a b m j show ?thesis by (simp add: EventToRequest_escaping)
qed

lemma ReplaceFirst_prefix: "HasPrefix s old \<Longrightarrow> ReplaceFirst s old new = new @ drop (length old) s"
  by (cases s) (auto simp: HasPrefix_def)

lemma normalizePath_slash: "HasPrefix (normalizePath r p) ''/''"
  by (simp add: normalizePath_def Let_def HasPrefix_def)

lemma normalizePath_unset:
  "stripBasePath r = [] \<Longrightarrow> normalizePath r p = (if HasPrefix p ''/'' then p else ''/'' @ p)"
  by (simp add: normalizePath_def)

lemma StripBasePath_api: "StripBasePath ''/api'' r0 = (''/api'', r0\<lparr>stripBasePath := ''/api''\<rparr>)"
  by (simp add: StripBasePath_def TrimSpaces_def HasPrefix_def HasSuffix_def Let_def)

lemma StripBasePath_empty: "StripBasePath [] r0 = ([], r0\<lparr>stripBasePath := []\<rparr>)"
  by (simp add: StripBasePath_def TrimSpaces_def)

lemma normalizePath_api_users:
  "stripBasePath r = ''/api'' \<Longrightarrow> normalizePath r ''/api/users'' = ''/users''"
  by (simp add: normalizePath_def HasPrefix_def)

text \<open>
  C6. After \<open>StripBasePath("/api")\<close> the path \<open>/api/users\<close> is normalised to \<open>/users\<close>, and
  with the host variable unset the URL string of such a record is the default address,
  \<open>/users\<close> and the query part. After \<open>StripBasePath("")\<close> a path is left as it is but
  for the leading slash it is given when it has none. With the host variable unset, the
  URL string of every record is the default address, the normalised path, which begins
  with a slash, and the query part, and the URL of the request is parsed from it.
\<close>

theorem base_path_and_default_host:
  "(Path req = ''/api/users'' \<longrightarrow>
      normalizePath (snd (StripBasePath ''/api'' r0)) (Path req) = ''/users''
      \<and> (LookupEnv P CustomHostVariable = None \<longrightarrow>
           requestURL P (snd (StripBasePath ''/api'' r0)) req
             = DefaultServerAddress @ ''/users'' @ querySuffix req))
   \<and> normalizePath (snd (StripBasePath [] r0)) p = (if HasPrefix p ''/'' then p else ''/'' @ p)
   \<and> HasPrefix (normalizePath r (Path req)) ''/''
   \<and> (LookupEnv P CustomHostVariable = None \<longrightarrow>
        requestURL P r req = DefaultServerAddress @ normalizePath r (Path req) @ querySuffix req
        \<and> (EventToRequest P r req = Inr rq \<longrightarrow>
             url_Parse P (DefaultServerAddress @ normalizePath r (Path req) @ querySuffix req)
               = Inr (URL rq)))"
proof (cases "LookupEnv P CustomHostVariable")
  case None
  then have a: "serverAddress P = DefaultServerAddress"
    by (simp add: serverAddress_def)
  have "EventToRequest P r req = Inr rq \<longrightarrow> url_Parse P (requestURL P r req) = Inr (URL rq)"
    using EventToRequest_URL by blast
  then have "EventToRequest P r req = Inr rq \<longrightarrow>
      url_Parse P (DefaultServerAddress @ normalizePath r (Path req) @ querySuffix req)
        = Inr (URL rq)"
    by (simp add: requestURL_querySuffix a)
  then show ?thesis
    by (simp add: requestURL_querySuffix a StripBasePath_api StripBasePath_empty
          normalizePath_api_users normalizePath_slash normalizePath_unset)
next
  case (Some customAddress)
  then show ?thesis
    by (simp add: StripBasePath_api StripBasePath_empty
          normalizePath_api_users normalizePath_slash normalizePath_unset)
qed

lemma usersRequest_fields: "Path usersRequest = ''/api/users''" "querySuffix usersRequest = []"
  by (simp_all add: usersRequest_def querySuffix_def)

lemma EventToRequest_users:
  "EventToRequest examplePlatform (snd (StripBasePath ''/api'' \<lparr>stripBasePath = []\<rparr>)) usersRequest
     = Inr \<lparr>Method = ''GET'', URL = ''https://aws-serverless-go-api.com/users'',
            Header = Map.empty, reqBody = [], ctxValue = None\<rparr>"
proof -
  have "HTTPMethod usersRequest = ''GET''" "Headers usersRequest = []"
    "IsBase64Encoded usersRequest = False" "Body usersRequest = []"
    by (simp_all add: usersRequest_def)
  moreover have "ToUpper examplePlatform ''GET'' = ''GET''"
    by code_simp
  ultimately show ?thesis
    by (simp add: EventToRequest_def decodeBody_def requestURL_querySuffix usersRequest_fields
        StripBasePath_api normalizePath_api_users serverAddress_def examplePlatform_fields
        http_NewRequest_def DefaultServerAddress_def validMethod_GET addHeaders_def)
qed

theorem base_path_and_default_host_witness:
  "Path usersRequest = ''/api/users''
   \<and> LookupEnv examplePlatform CustomHostVariable = None
   \<and> requestURL examplePlatform (snd (StripBasePath ''/api'' \<lparr>stripBasePath = []\<rparr>)) usersRequest
       = ''https://aws-serverless-go-api.com/users''
   \<and> URL (projr (EventToRequest examplePlatform
                    (snd (StripBasePath ''/api'' \<lparr>stripBasePath = []\<rparr>)) usersRequest))
       = ''https://aws-serverless-go-api.com/users''"
  using base_path_and_default_host [where req = usersRequest and P = examplePlatform
          and ?r0.0 = "\<lparr>stripBasePath = []\<rparr>"]
  by (simp add: usersRequest_fields examplePlatform_fields DefaultServerAddress_def
        EventToRequest_users)

lemma EventToRequest_decode_error:
  "decodeBody req = Inl err \<Longrightarrow> EventToRequest P r req = Inl err"
  by (simp add: EventToRequest_def)

lemma EventToRequest_decoded:
  assumes "decodeBody req = Inr bs"
  shows "EventToRequest P r req =
           (case http_NewRequest P (ToUpper P (HTTPMethod req)) (requestURL P r req) bs of
              Inl err \<Rightarrow> Inl err
            | Inr rq0 \<Rightarrow> Inr (addHeaders (Headers req) rq0))"
  using assms by (simp add: EventToRequest_def)

lemma EventToRequest_body:
  assumes "EventToRequest P r req = Inr rq"
  shows "decodeBody req = Inr (reqBody rq)"
proof -
  from assms obtain bs rq0 where "decodeBody req = Inr bs"
      and "http_NewRequest P (ToUpper P (HTTPMethod req)) (requestURL P r req) bs = Inr rq0"
      and "rq = addHeaders (Headers req) rq0"
    by (rule EventToRequest_Inr)
  then show ?thesis by (simp add: addHeaders_fields http_NewRequest_fields)
qed

text \<open>
  C7. For a record with the base64 flag: when \<open>DecodeString\<close> rejects the body,
  \<open>EventToRequest\<close> returns that error and no request; when it accepts the body, the
  translation fails only if \<open>http.NewRequest\<close> fails for the decoded bytes, and the body
  of the request it returns is the decoded bytes. For a record without the flag the body
  of the request is the body of the record.
\<close>

theorem body_decoding:
  "(IsBase64Encoded req \<and> DecodeString (Body req) = Inl err \<longrightarrow>
      EventToRequest P r req = Inl err)
   \<and> (IsBase64Encoded req \<and> DecodeString (Body req) = Inr bs \<longrightarrow>
        (isl (EventToRequest P r req)
           = isl (http_NewRequest P (ToUpper P (HTTPMethod req)) (requestURL P r req) bs))
        \<and> (EventToRequest P r req = Inr rq \<longrightarrow> reqBody rq = bs))
   \<and> (\<not> IsBase64Encoded req \<longrightarrow>
        (isl (EventToRequest P r req)
           = isl (http_NewRequest P (ToUpper P (HTTPMethod req)) (requestURL P r req) (Body req)))
        \<and> (EventToRequest P r req = Inr rq \<longrightarrow> reqBody rq = Body req))"
proof (intro conjI impI)
  assume "IsBase64Encoded req \<and> DecodeString (Body req) = Inl err"
  then have "decodeBody req = Inl err" by (simp add: decodeBody_def)
  then show "EventToRequest P r req = Inl err" by (rule EventToRequest_decode_error)
next
  assume "IsBase64Encoded req \<and> DecodeString (Body req) = Inr bs"
  then have d: "decodeBody req = Inr bs" by (simp add: decodeBody_def)
  show "isl (EventToRequest P r req)
           = isl (http_NewRequest P (ToUpper P (HTTPMethod req)) (requestURL P r req) bs)"
    by (simp add: EventToRequest_decoded[OF d] split: sum.split)
  assume "EventToRequest P r req = Inr rq"
  from EventToRequest_body[OF this] d show "reqBody rq = bs" by simp
next
  assume "\<not> IsBase64Encoded req"
  then have d: "decodeBody req = Inr (Body req)" by (simp add: decodeBody_def)
  show "isl (EventToRequest P r req)
           = isl (http_NewRequest P (ToUpper P (HTTPMethod req)) (requestURL P r req) (Body req))"
    by (simp add: EventToRequest_decoded[OF d] split: sum.split)
  assume "EventToRequest P r req = Inr rq"
  from EventToRequest_body[OF this] d show "reqBody rq = Body req" by simp
qed

lemma DecodeString_hello: "DecodeString ''aGVsbG8='' = Inr ''hello''"
proof -
  have "decodeQuanta ''aGVsbG8=''
          = Inr [char_of (104::nat), char_of (101::nat), char_of (108::nat), char_of (108::nat),
                 char_of (111::nat)]"
    by (simp add: dec64_def encodeStd_def Let_def)
  moreover have "[char_of (104::nat), char_of (101::nat), char_of (108::nat), char_of (108::nat),
                  char_of (111::nat)] = ''hello''"
    by code_simp
  ultimately show ?thesis by (simp add: DecodeString_def isNewline_def byte_def)
qed

lemma DecodeString_bad: "DecodeString ''%%%'' = Inl CorruptInputError"
  by (simp add: DecodeString_def isNewline_def byte_def dec64_def encodeStd_def)

lemma validMethod_POST: "validMethod ''POST''"
  by code_simp

lemma EventToRequest_hello:
  "EventToRequest examplePlatform \<lparr>stripBasePath = []\<rparr> helloRequest
     = Inr \<lparr>Method = ''POST'', URL = ''https://aws-serverless-go-api.com/'',
            Header = Map.empty, reqBody = ''hello'', ctxValue = None\<rparr>"
proof -
  have "HTTPMethod helloRequest = ''POST''" "Headers helloRequest = []"
    "IsBase64Encoded helloRequest = True" "Body helloRequest = ''aGVsbG8=''"
    "Path helloRequest = ''/''" "querySuffix helloRequest = []"
    by (simp_all add: helloRequest_def querySuffix_def)
  moreover have "ToUpper examplePlatform ''POST'' = ''POST''"
    by code_simp
  moreover have "normalizePath \<lparr>stripBasePath = []\<rparr> ''/'' = ''/''"
    by code_simp
  ultimately show ?thesis
    by (simp add: EventToRequest_def decodeBody_def requestURL_querySuffix DecodeString_hello
        serverAddress_def examplePlatform_fields
        http_NewRequest_def DefaultServerAddress_def validMethod_POST addHeaders_def)
qed

theorem body_decoding_witness:
  "IsBase64Encoded badBodyRequest \<and> DecodeString (Body badBodyRequest) = Inl CorruptInputError
   \<and> EventToRequest examplePlatform \<lparr>stripBasePath = []\<rparr> badBodyRequest = Inl CorruptInputError
   \<and> IsBase64Encoded helloRequest \<and> DecodeString (Body helloRequest) = Inr ''hello''
   \<and> \<not> isl (EventToRequest examplePlatform \<lparr>stripBasePath = []\<rparr> helloRequest)
   \<and> reqBody (projr (EventToRequest examplePlatform \<lparr>stripBasePath = []\<rparr> helloRequest)) = ''hello''"
proof -
  have a: "IsBase64Encoded badBodyRequest \<and> DecodeString (Body badBodyRequest) = Inl CorruptInputError"
    by (simp add: badBodyRequest_def DecodeString_bad)
  have b: "IsBase64Encoded helloRequest \<and> DecodeString (Body helloRequest) = Inr ''hello''"
    by (simp add: helloRequest_def DecodeString_hello)
  from body_decoding [where req = badBodyRequest and err = CorruptInputError
         and P = examplePlatform and r = "\<lparr>stripBasePath = []\<rparr>"] a
  have 1: "EventToRequest examplePlatform \<lparr>stripBasePath = []\<rparr> badBodyRequest
            = Inl CorruptInputError"
    by blast
  from body_decoding [where req = helloRequest and bs = "''hello''"
         and P = examplePlatform and r = "\<lparr>stripBasePath = []\<rparr>"
         and rq = "projr (EventToRequest examplePlatform \<lparr>stripBasePath = []\<rparr> helloRequest)"] b
  have 2: "reqBody (projr (EventToRequest examplePlatform \<lparr>stripBasePath = []\<rparr> helloRequest))
            = ''hello''"
    by (simp add: EventToRequest_hello)
  have 3: "\<not> isl (EventToRequest examplePlatform \<lparr>stripBasePath = []\<rparr> helloRequest)"
    by (simp add: EventToRequest_hello)
  from a b 1 2 3 show ?thesis by blast
qed

lemma Header_Add_lookup:
  "Header_Add h key val k =
     (if CanonicalMIMEHeaderKey key = k then Some (valuesOf h k @ [val]) else h k)"
  by (auto simp: Header_Add_def valuesOf_def Let_def)

lemma Header_addHeaders:
  "Header (addHeaders hs rq) k =
     (if valuesFor k hs = [] then Header rq k
      else Some (valuesOf (Header rq) k @ valuesFor k hs))"
  unfolding addHeaders_def
proof (induction hs arbitrary: rq)
  case Nil
  then show ?case by (simp add: valuesFor_def)
next
  case (Cons e hs)
  obtain h v where e: "e = (h, v)" by (cases e)
  define rq1 where "rq1 = rq\<lparr>Header := Header_Add (Header rq) h v\<rparr>"
  have 1: "Header rq1 k =
      (if CanonicalMIMEHeaderKey h = k then Some (valuesOf (Header rq) k @ [v]) else Header rq k)"
    by (simp add: rq1_def Header_Add_lookup)
  have 2: "valuesFor k (e # hs)
      = (if CanonicalMIMEHeaderKey h = k then v # valuesFor k hs else valuesFor k hs)"
    by (simp add: e valuesFor_def)
  have "Header (fold (\<lambda>(h, v) rq. rq\<lparr>Header := Header_Add (Header rq) h v\<rparr>) (e # hs) rq) k
      = Header (fold (\<lambda>(h, v) rq. rq\<lparr>Header := Header_Add (Header rq) h v\<rparr>) hs rq1) k"
    by (simp add: e rq1_def)
  also have "\<dots> = (if valuesFor k hs = [] then Header rq1 k
                     else Some (valuesOf (Header rq1) k @ valuesFor k hs))"
    by (rule Cons.IH)
  also have "\<dots> = (if valuesFor k (e # hs) = [] then Header rq k
                     else Some (valuesOf (Header rq) k @ valuesFor k (e # hs)))"
    unfolding 2 by (simp add: 1 valuesOf_def)
  finally show ?case .
qed

lemma EventToRequest_Header:
  assumes "EventToRequest P r req = Inr rq"
  shows "Header rq k = (if valuesFor k (Headers req) = [] then None
                        else Some (valuesFor k (Headers req)))"
proof -
  from assms obtain bs rq0 where
      n: "http_NewRequest P (ToUpper P (HTTPMethod req)) (requestURL P r req) bs = Inr rq0"
      and "rq = addHeaders (Headers req) rq0"
    by (rule EventToRequest_Inr)
  then show ?thesis
    by (simp add: Header_addHeaders http_NewRequest_fields(3)[OF n] valuesOf_def)
qed

lemma canonical_accept:
  "CanonicalMIMEHeaderKey ''accept'' = ''Accept''" "CanonicalMIMEHeaderKey ''Accept'' = ''Accept''"
  by code_simp+

lemma EventToRequest_twoAccept:
  "\<not> isl (EventToRequest examplePlatform \<lparr>stripBasePath = []\<rparr> twoAcceptRequest)"
proof -
  have "HTTPMethod twoAcceptRequest = ''GET''"
    "IsBase64Encoded twoAcceptRequest = False" "Body twoAcceptRequest = []"
    by (simp_all add: twoAcceptRequest_def)
  moreover have "ToUpper examplePlatform ''GET'' = ''GET''"
    by code_simp
  ultimately show ?thesis
    by (simp add: EventToRequest_def decodeBody_def examplePlatform_fields
        http_NewRequest_def validMethod_GET)
qed

text \<open>
  C8, as stated, fails: of two entries whose names are the same header, \<open>accept\<close> and
  \<open>Accept\<close>, both values are in the request, in the order of the range.
\<close>

theorem header_last_value_wins_counterexample:
  "\<not> isl (EventToRequest examplePlatform \<lparr>stripBasePath = []\<rparr> twoAcceptRequest)
   \<and> Header (projr (EventToRequest examplePlatform \<lparr>stripBasePath = []\<rparr> twoAcceptRequest))
        ''Accept'' = Some [''text/html'', ''application/json'']
   \<and> Header (projr (EventToRequest examplePlatform \<lparr>stripBasePath = []\<rparr> twoAcceptRequest))
        ''Accept'' \<noteq> Some [''application/json'']"
proof -
  have a: "\<not> isl (EventToRequest examplePlatform \<lparr>stripBasePath = []\<rparr> twoAcceptRequest)"
    by (rule EventToRequest_twoAccept)
  then have "EventToRequest examplePlatform \<lparr>stripBasePath = []\<rparr> twoAcceptRequest
      = Inr (projr (EventToRequest examplePlatform \<lparr>stripBasePath = []\<rparr> twoAcceptRequest))"
    by (cases "EventToRequest examplePlatform \<lparr>stripBasePath = []\<rparr> twoAcceptRequest") simp_all
  from EventToRequest_Header[OF this, of "''Accept''"] a show ?thesis
    by (simp add: valuesFor_def twoAcceptRequest_def canonical_accept)
qed

text \<open>
  C8, amended. \<open>EventToRequest\<close> adds every entry of the record's header map to the header
  mapping of the request under the canonical form of its name: a key of the request holds
  the values of all entries whose names have that canonical form, in the order in which
  the map is ranged over, and is absent when there is none. No value replaces another.
\<close>

theorem headers_copied_under_canonical_names:
  assumes "EventToRequest P r req = Inr rq"
  shows "Header rq k = (if valuesFor k (Headers req) = [] then None
                        else Some (valuesFor k (Headers req)))
    \<and> ((h, v) \<in> set (Headers req) \<longrightarrow>
         v \<in> set (valuesOf (Header rq) (CanonicalMIMEHeaderKey h)))"
proof
  show "Header rq k = (if valuesFor k (Headers req) = [] then None
                        else Some (valuesFor k (Headers req)))"
    using assms by (rule EventToRequest_Header)
  show "(h, v) \<in> set (Headers req) \<longrightarrow> v \<in> set (valuesOf (Header rq) (CanonicalMIMEHeaderKey h))"
  proof
    assume m: "(h, v) \<in> set (Headers req)"
    then have "v \<in> set (valuesFor (CanonicalMIMEHeaderKey h) (Headers req))"
      by (force simp: valuesFor_def)
    then show "v \<in> set (valuesOf (Header rq) (CanonicalMIMEHeaderKey h))"
      using EventToRequest_Header[OF assms, of "CanonicalMIMEHeaderKey h"]
      by (auto simp: valuesOf_def split: if_splits)
  qed
qed

theorem headers_copied_under_canonical_names_witness:
  "Header (projr (EventToRequest examplePlatform \<lparr>stripBasePath = []\<rparr> twoAcceptRequest))
      ''Accept'' = Some [''text/html'', ''application/json'']
   \<and> Header (projr (EventToRequest examplePlatform \<lparr>stripBasePath = []\<rparr> twoAcceptRequest))
      ''accept'' = None"
proof -
  have "EventToRequest examplePlatform \<lparr>stripBasePath = []\<rparr> twoAcceptRequest
      = Inr (projr (EventToRequest examplePlatform \<lparr>stripBasePath = []\<rparr> twoAcceptRequest))"
    using EventToRequest_twoAccept
    by (cases "EventToRequest examplePlatform \<lparr>stripBasePath = []\<rparr> twoAcceptRequest") simp_all
  from headers_copied_under_canonical_names [OF this, of "''Accept''"]
       headers_copied_under_canonical_names [OF this, of "''accept''"]
  show ?thesis
    by (simp add: valuesFor_def twoAcceptRequest_def canonical_accept)
qed

lemma echo_writer:
  "runCalls P (echoHandler rq) NewProxyResponseWriter
     = snd (Write P (reqBody rq) \<lparr>headers = Header rq, body = [], status = defaultStatusCode\<rparr>)"
  by (simp add: runCalls_def echoHandler_def NewProxyResponseWriter_def)

lemma echo_writer_fields:
  "status (runCalls P (echoHandler rq) NewProxyResponseWriter) = StatusOK"
  "body (runCalls P (echoHandler rq) NewProxyResponseWriter) = reqBody rq"
  "headers (runCalls P (echoHandler rq) NewProxyResponseWriter)
     = (if Header_Get (Header rq) contentTypeHeaderKey = []
        then Header_Add (Header rq) contentTypeHeaderKey (DetectContentType P (reqBody rq))
        else Header rq)"
  by (simp_all add: echo_writer Write_def Let_def defaultStatusCode_def)

lemma bodyBytes_GetProxyResponse:
  assumes "status w \<noteq> defaultStatusCode"
  shows "bodyBytes (respIsBase64Encoded (fst (fst (GetProxyResponse w))))
                   (respBody (fst (fst (GetProxyResponse w)))) = Inr (body w)"
  using assms
  by (cases "utf8_Valid (body w)")
     (simp_all add: GetProxyResponse_def Let_def bodyBytes_def DecodeString_EncodeToString)

lemma echoResponse_fields:
  "snd (echoResponse P rq) = None"
  "StatusCode (fst (echoResponse P rq)) = 200"
  "respMultiValueHeaders (fst (echoResponse P rq))
     = headers (runCalls P (echoHandler rq) NewProxyResponseWriter)"
  "bodyBytes (respIsBase64Encoded (fst (echoResponse P rq))) (respBody (fst (echoResponse P rq)))
     = Inr (reqBody rq)"
proof -
  let ?w = "runCalls P (echoHandler rq) NewProxyResponseWriter"
  have s: "status ?w \<noteq> defaultStatusCode"
    by (simp add: echo_writer_fields StatusOK_def defaultStatusCode_def)
  then show "snd (echoResponse P rq) = None" "StatusCode (fst (echoResponse P rq)) = 200"
    "respMultiValueHeaders (fst (echoResponse P rq)) = headers ?w"
    by (simp_all add: echoResponse_def GetProxyResponse_def Let_def echo_writer_fields
          StatusOK_def split: prod.split)
  from bodyBytes_GetProxyResponse[OF s]
  show "bodyBytes (respIsBase64Encoded (fst (echoResponse P rq))) (respBody (fst (echoResponse P rq)))
     = Inr (reqBody rq)"
    by (simp add: echoResponse_def echo_writer_fields)
qed

lemma EventToRequest_lowerCaseHeader:
  "\<not> isl (EventToRequest examplePlatform \<lparr>stripBasePath = []\<rparr> lowerCaseHeaderRequest)"
proof -
  have "HTTPMethod lowerCaseHeaderRequest = ''GET''"
    "IsBase64Encoded lowerCaseHeaderRequest = False"
    by (simp_all add: lowerCaseHeaderRequest_def)
  moreover have "ToUpper examplePlatform ''GET'' = ''GET''"
    by code_simp
  ultimately show ?thesis
    by (simp add: EventToRequest_def decodeBody_def examplePlatform_fields
        http_NewRequest_def validMethod_GET)
qed

lemma canonical_content_type_lower: "CanonicalMIMEHeaderKey ''content-type'' = ''Content-Type''"
  by code_simp

lemma Header_lowerCaseHeader:
  "Header (projr (EventToRequest examplePlatform \<lparr>stripBasePath = []\<rparr> lowerCaseHeaderRequest)) k
     = (if k = ''Content-Type'' then Some [''text/plain''] else None)"
proof -
  have "EventToRequest examplePlatform \<lparr>stripBasePath = []\<rparr> lowerCaseHeaderRequest
      = Inr (projr (EventToRequest examplePlatform \<lparr>stripBasePath = []\<rparr> lowerCaseHeaderRequest))"
    using EventToRequest_lowerCaseHeader
    by (cases "EventToRequest examplePlatform \<lparr>stripBasePath = []\<rparr> lowerCaseHeaderRequest")
       simp_all
  from EventToRequest_Header[OF this, of k] show ?thesis
    by (simp add: valuesFor_def lowerCaseHeaderRequest_def canonical_content_type_lower)
qed

text \<open>
  C1, as stated, fails: the inbound record has the header \<open>content-type\<close>, the outbound
  record has no header of that name; the value has moved to \<open>Content-Type\<close>.
\<close>

theorem echo_round_trip_headers_counterexample:
  "\<not> isl (EventToRequest examplePlatform \<lparr>stripBasePath = []\<rparr> lowerCaseHeaderRequest)
   \<and> map_of (Headers lowerCaseHeaderRequest) ''content-type'' = Some ''text/plain''
   \<and> respMultiValueHeaders
        (fst (echoResponse examplePlatform
               (projr (EventToRequest examplePlatform \<lparr>stripBasePath = []\<rparr>
                         lowerCaseHeaderRequest))))
        ''content-type'' = None
   \<and> respMultiValueHeaders
        (fst (echoResponse examplePlatform
               (projr (EventToRequest examplePlatform \<lparr>stripBasePath = []\<rparr>
                         lowerCaseHeaderRequest))))
        ''Content-Type'' = Some [''text/plain'']"
proof -
  let ?rq = "projr (EventToRequest examplePlatform \<lparr>stripBasePath = []\<rparr> lowerCaseHeaderRequest)"
  have g: "Header_Get (Header ?rq) contentTypeHeaderKey = ''text/plain''"
    unfolding Header_Get_contentType
    by (simp add: Header_lowerCaseHeader contentTypeHeaderKey_def)
  have "headers (runCalls examplePlatform (echoHandler ?rq) NewProxyResponseWriter) = Header ?rq"
    by (simp add: echo_writer_fields g)
  then have "respMultiValueHeaders (fst (echoResponse examplePlatform ?rq)) = Header ?rq"
    by (simp add: echoResponse_fields)
  moreover have "map_of (Headers lowerCaseHeaderRequest) ''content-type'' = Some ''text/plain''"
    by (simp add: lowerCaseHeaderRequest_def)
  ultimately show ?thesis
    by (simp add: Header_lowerCaseHeader EventToRequest_lowerCaseHeader)
qed

lemma decodeBody_bodyBytes: "decodeBody req = bodyBytes (IsBase64Encoded req) (Body req)"
  by (simp add: decodeBody_def bodyBytes_def)

lemma echo_headers_other:
  assumes "k \<noteq> contentTypeHeaderKey"
  shows "headers (runCalls P (echoHandler rq) NewProxyResponseWriter) k = Header rq k"
  using assms
  by (simp add: echo_writer_fields Header_Add_def Let_def canonical_contentType)

lemma echo_headers_contentType:
  "headers (runCalls P (echoHandler rq) NewProxyResponseWriter) contentTypeHeaderKey
     = (case valuesOf (Header rq) contentTypeHeaderKey of
          [] \<Rightarrow> Some [DetectContentType P (reqBody rq)]
        | v # vs \<Rightarrow> if v = [] then Some (v # vs @ [DetectContentType P (reqBody rq)])
                   else Some (v # vs))"
  unfolding echo_writer_fields Header_Get_contentType
  by (simp add: Header_Add_lookup canonical_contentType valuesOf_def
        split: option.split list.split)

text \<open>
  C1, amended. For every record that \<open>EventToRequest\<close> translates, the echo handler and
  \<open>GetProxyResponse\<close> give a record without error whose body stands, under its base64
  flag, for the bytes the body of the inbound record stands for under its flag. Under
  every key but \<open>Content-Type\<close> its headers are the values of the inbound headers whose
  names have that key as canonical form; under \<open>Content-Type\<close> they are those values,
  followed by the sniffed type of the body when there is none or the first is empty.
\<close>

theorem echo_round_trip:
  assumes "EventToRequest P r req = Inr rq"
  shows "snd (echoResponse P rq) = None
    \<and> bodyBytes (IsBase64Encoded req) (Body req) = Inr (reqBody rq)
    \<and> bodyBytes (respIsBase64Encoded (fst (echoResponse P rq)))
                 (respBody (fst (echoResponse P rq)))
        = bodyBytes (IsBase64Encoded req) (Body req)
    \<and> (k \<noteq> contentTypeHeaderKey \<longrightarrow>
         respMultiValueHeaders (fst (echoResponse P rq)) k
           = (if valuesFor k (Headers req) = [] then None
              else Some (valuesFor k (Headers req))))
    \<and> respMultiValueHeaders (fst (echoResponse P rq)) contentTypeHeaderKey
        = (case valuesFor contentTypeHeaderKey (Headers req) of
             [] \<Rightarrow> Some [DetectContentType P (reqBody rq)]
           | v # vs \<Rightarrow> if v = [] then Some (v # vs @ [DetectContentType P (reqBody rq)])
                      else Some (v # vs))"
proof -
  have b: "bodyBytes (IsBase64Encoded req) (Body req) = Inr (reqBody rq)"
    using EventToRequest_body[OF assms] by (simp add: decodeBody_bodyBytes)
  have h: "Header rq k' = (if valuesFor k' (Headers req) = [] then None
                           else Some (valuesFor k' (Headers req)))" for k'
    using assms by (rule EventToRequest_Header)
  have v: "valuesOf (Header rq) contentTypeHeaderKey = valuesFor contentTypeHeaderKey (Headers req)"
    by (simp add: valuesOf_def h)
  show ?thesis
    by (simp add: echoResponse_fields b echo_headers_other echo_headers_contentType v h)
qed

theorem echo_round_trip_witness:
  "snd (echoResponse examplePlatform
          (projr (EventToRequest examplePlatform \<lparr>stripBasePath = []\<rparr> helloRequest))) = None
   \<and> bodyBytes (respIsBase64Encoded (fst (echoResponse examplePlatform
          (projr (EventToRequest examplePlatform \<lparr>stripBasePath = []\<rparr> helloRequest)))))
        (respBody (fst (echoResponse examplePlatform
          (projr (EventToRequest examplePlatform \<lparr>stripBasePath = []\<rparr> helloRequest)))))
       = Inr ''hello''
   \<and> respMultiValueHeaders (fst (echoResponse examplePlatform
          (projr (EventToRequest examplePlatform \<lparr>stripBasePath = []\<rparr> helloRequest))))
        contentTypeHeaderKey = Some [''text/plain; charset=utf-8'']"
proof -
  let ?rq = "projr (EventToRequest examplePlatform \<lparr>stripBasePath = []\<rparr> helloRequest)"
  have e: "EventToRequest examplePlatform \<lparr>stripBasePath = []\<rparr> helloRequest = Inr ?rq"
    by (simp add: EventToRequest_hello)
  have q: "reqBody ?rq = ''hello''"
    by (simp add: EventToRequest_hello)
  have d: "DetectContentType examplePlatform ''hello'' = ''text/plain; charset=utf-8''"
    by code_simp
  have n: "valuesFor contentTypeHeaderKey (Headers helloRequest) = []"
    by (simp add: valuesFor_def helloRequest_def)
  from echo_round_trip [OF e, of contentTypeHeaderKey] show ?thesis
    by (simp add: q d n)
qed

end
